theory Spec2Isabelle
  imports Complex_Main "HOL-Library.Word" "HOL-Library.Sublist"
begin

section \<open>JavaScript values\<close>

text \<open>
  A JavaScript string is a sequence of 16-bit code units: \<open>length\<close>, \<open>substring\<close>,
  \<open>includes\<close>, \<open>startsWith\<close> and the regular expressions of the source all count and
  compare code units. The Japanese texts of the source do not fit into 8-bit characters,
  so a string is a list of 16-bit words here; \<open>js\<close> embeds an ASCII literal.
\<close>

type_synonym jstring = "16 word list"

definition js :: "string \<Rightarrow> jstring" where
  "js s = map (\<lambda>c. of_nat (of_char c)) s"

text \<open>\<open>s.substring(0, n)\<close> for a string \<open>s\<close>.\<close>

definition substring0 :: "jstring \<Rightarrow> nat \<Rightarrow> jstring" where
  "substring0 s n = take n s"

text \<open>
  The value \<open>JSON.parse\<close> returns. A number is an IEEE double: a rational or an
  infinity (the text \<open>1e999\<close> parses to \<open>Infinity\<close>); the source only ever tests a
  number for truthiness. An object is the list of its own properties, each key once.
\<close>

datatype jnumber = Finite rat | PosInfinity | NegInfinity

datatype json =
    JNull
  | JBool bool
  | JNum jnumber
  | JStr jstring
  | JArr "json list"
  | JObj "(jstring \<times> json) list"

text \<open>
  A JavaScript value read from parsed JSON is a \<open>json\<close> or \<open>undefined\<close> (\<open>None\<close>).
\<close>

type_synonym jsval = "json option"

datatype js_error =
    TypeError
  | SyntaxError
  | Error jstring

text \<open>\<open>!v\<close> is \<open>\<not> truthy v\<close>.\<close>

fun truthy :: "jsval \<Rightarrow> bool" where
  "truthy None = False"
| "truthy (Some JNull) = False"
| "truthy (Some (JBool b)) = b"
| "truthy (Some (JNum (Finite q))) = (q \<noteq> 0)"
| "truthy (Some (JNum _)) = True"
| "truthy (Some (JStr s)) = (s \<noteq> [])"
| "truthy (Some (JArr _)) = True"
| "truthy (Some (JObj _)) = True"

text \<open>
  \<open>v.k\<close>: reading a property of \<open>null\<close> or \<open>undefined\<close> throws a TypeError; an object
  gives its own property or \<open>undefined\<close>; every other value gives \<open>undefined\<close> for the
  property names the source reads with it (\<open>checks\<close>, \<open>coreQuestion\<close>, \<open>pass\<close>,
  \<open>reason\<close>, \<open>questions\<close>, \<open>suggestedTone\<close>, the four check names, \<open>weaklogId\<close> and
  \<open>readyAt\<close>), none of which is defined on a prototype.
\<close>

fun js_get :: "jsval \<Rightarrow> jstring \<Rightarrow> js_error + jsval" where
  "js_get None k = Inl TypeError"
| "js_get (Some JNull) k = Inl TypeError"
| "js_get (Some (JObj kvs)) k = Inr (map_of kvs k)"
| "js_get (Some _) k = Inr None"

text \<open>\<open>v?.k\<close>: as \<open>v.k\<close>, but \<open>undefined\<close> where \<open>v\<close> is \<open>null\<close> or \<open>undefined\<close>.\<close>

fun js_get_opt :: "jsval \<Rightarrow> jstring \<Rightarrow> jsval" where
  "js_get_opt None k = None"
| "js_get_opt (Some JNull) k = None"
| "js_get_opt (Some (JObj kvs)) k = map_of kvs k"
| "js_get_opt (Some _) k = None"

text \<open>
  \<open>response.match(/\{[\s\S]*\}/)\<close>: the leftmost match starts at the first \<open>{\<close>; the
  greedy star runs to the last \<open>}\<close> behind it. Without a \<open>}\<close> behind the first \<open>{\<close>
  no later \<open>{\<close> has one either, and the match is \<open>null\<close>.
\<close>

definition lbrace :: "16 word" where "lbrace = 0x7B"
definition rbrace :: "16 word" where "rbrace = 0x7D"

definition match_json_object :: "jstring \<Rightarrow> jstring option" where
  "match_json_object response =
     (case dropWhile (\<lambda>c. c \<noteq> lbrace) response of
        [] \<Rightarrow> None
      | c # rest \<Rightarrow>
          (case dropWhile (\<lambda>c. c \<noteq> rbrace) (rev rest) of
             [] \<Rightarrow> None
           | r # before \<Rightarrow> Some (c # rev (r # before))))"

section \<open>Triage evaluator (TriageAnalyzer)\<close>

record CheckResult =
  pass :: bool
  reason :: jstring

record Checks =
  hasSpecifics :: CheckResult
  canBeCorePhrase :: CheckResult
  isTransferable :: CheckResult
  isNonHarmful :: CheckResult

datatype recommendation = Adopt | Review | Reject

record TriageResult =
  checks :: Checks
  score :: nat
  recommendation :: recommendation
  coreQuestion :: jstring
  timestamp :: jstring

text \<open>\<open>Object.values(checks)\<close>: the four checks in insertion order.\<close>

definition check_values :: "Checks \<Rightarrow> CheckResult list" where
  "check_values c = [hasSpecifics c, canBeCorePhrase c, isTransferable c, isNonHarmful c]"

definition validateCheckResult :: "jsval \<Rightarrow> CheckResult" where
  "validateCheckResult check =
     \<lparr> pass = (js_get_opt check (js ''pass'') = Some (JBool True)),
       reason = (case js_get_opt check (js ''reason'') of
                   Some (JStr s) \<Rightarrow> s
                 | _ \<Rightarrow> js ''No reason provided'') \<rparr>"

definition calculateRecommendation :: "nat \<Rightarrow> recommendation" where
  "calculateRecommendation sc =
     (if sc = 4 then Adopt else if sc \<ge> 2 then Review else Reject)"

definition createFallbackResult :: "jstring \<Rightarrow> jstring \<Rightarrow> TriageResult" where
  "createFallbackResult now content =
     \<lparr> checks =
         \<lparr> hasSpecifics = \<lparr> pass = False, reason = js ''Analysis failed - please review'' \<rparr>,
           canBeCorePhrase = \<lparr> pass = False, reason = js ''Analysis failed - please review'' \<rparr>,
           isTransferable = \<lparr> pass = False, reason = js ''Analysis failed - please review'' \<rparr>,
           isNonHarmful = \<lparr> pass = True, reason = js ''Assumed safe'' \<rparr> \<rparr>,
       score = 1,
       recommendation = Review,
       coreQuestion = substring0 content 37 @ js ''...'',
       timestamp = now \<rparr>"

text \<open>
  The body of the \<open>try\<close> block of \<open>parseTriageResponse\<close>. \<open>JSON.parse\<close> is the
  platform's parser, a parameter: \<open>None\<close> is its SyntaxError. \<open>now\<close> is
  \<open>new Date().toISOString()\<close>. Calling \<open>substring\<close> on a \<open>coreQuestion\<close> that is not a
  string is a TypeError.
\<close>

definition parseTriageBody ::
  "(jstring \<Rightarrow> json option) \<Rightarrow> jstring \<Rightarrow> jstring \<Rightarrow> js_error + TriageResult" where
  "parseTriageBody JSON_parse now response =
     (case match_json_object response of
        None \<Rightarrow> Inl (Error (js ''No JSON found in response''))
      | Some m \<Rightarrow>
     (case JSON_parse m of
        None \<Rightarrow> Inl SyntaxError
      | Some parsed \<Rightarrow>
     (case js_get (Some parsed) (js ''checks'') of
        Inl e \<Rightarrow> Inl e
      | Inr pchecks \<Rightarrow>
     if \<not> truthy pchecks then Inl (Error (js ''Invalid response structure'')) else
     (case js_get (Some parsed) (js ''coreQuestion'') of
        Inl e \<Rightarrow> Inl e
      | Inr pcore \<Rightarrow>
     if \<not> truthy pcore then Inl (Error (js ''Invalid response structure'')) else
     (case (js_get pchecks (js ''hasSpecifics''), js_get pchecks (js ''canBeCorePhrase''),
            js_get pchecks (js ''isTransferable''), js_get pchecks (js ''isNonHarmful'')) of
        (Inr c1, Inr c2, Inr c3, Inr c4) \<Rightarrow>
          (let cs = \<lparr> hasSpecifics = validateCheckResult c1,
                      canBeCorePhrase = validateCheckResult c2,
                      isTransferable = validateCheckResult c3,
                      isNonHarmful = validateCheckResult c4 \<rparr>;
               sc = length (filter pass (check_values cs));
               rec = calculateRecommendation sc
           in (case pcore of
                 Some (JStr q) \<Rightarrow>
                   Inr \<lparr> checks = cs, score = sc, recommendation = rec,
                         coreQuestion = substring0 q 40, timestamp = now \<rparr>
               | _ \<Rightarrow> Inl TypeError))
      | _ \<Rightarrow> Inl TypeError)))))"

text \<open>
  \<open>parseTriageResponse\<close>: the \<open>catch\<close> block logs and returns the fallback; nothing in
  it throws. The result is a sum so that "no error reaches the caller" is a statement.
\<close>

definition parseTriageResponse ::
  "(jstring \<Rightarrow> json option) \<Rightarrow> jstring \<Rightarrow> jstring \<Rightarrow> jstring \<Rightarrow> js_error + TriageResult" where
  "parseTriageResponse JSON_parse now response originalContent =
     (case parseTriageBody JSON_parse now response of
        Inr result \<Rightarrow> Inr result
      | Inl error \<Rightarrow> Inr (createFallbackResult now originalContent))"

section \<open>Synthesis guide generator (SynthesisGuide)\<close>


record SynthesisGuide =
  questions :: "jstring list"
  suggestedTone :: jstring
  guide_timestamp :: jstring


text \<open>\<open>\d\<close> of a regular expression without the unicode flag: the ASCII digits.\<close>

definition is_digit :: "16 word \<Rightarrow> bool" where
  "is_digit c = (0x30 \<le> c \<and> c \<le> 0x39)"

text \<open>
  \<open>\s\<close>, and what \<open>trim\<close> removes: ECMAScript's WhiteSpace and LineTerminator code
  points (tab, LF, VT, FF, CR, space, U+00A0, U+1680, U+2000 to U+200A, U+2028, U+2029,
  U+202F, U+205F, U+3000, U+FEFF).
\<close>

definition is_space :: "16 word \<Rightarrow> bool" where
  "is_space c = ((0x09 \<le> c \<and> c \<le> 0x0D) \<or> c = 0x20 \<or> c = 0xA0 \<or> c = 0x1680 \<or>
     (0x2000 \<le> c \<and> c \<le> 0x200A) \<or> c = 0x2028 \<or> c = 0x2029 \<or> c = 0x202F \<or>
     c = 0x205F \<or> c = 0x3000 \<or> c = 0xFEFF)"

definition trim :: "jstring \<Rightarrow> jstring" where
  "trim s = rev (dropWhile is_space (rev (dropWhile is_space s)))"








section \<open>Provider adapters: retry and backoff of callAPI\<close>

text \<open>\<open>s.includes(sub)\<close> and \<open>s.startsWith(sub)\<close> on code units.\<close>

definition startsWith :: "jstring \<Rightarrow> jstring \<Rightarrow> bool" where
  "startsWith s sub = (take (length sub) s = sub)"

fun str_includes :: "jstring \<Rightarrow> jstring \<Rightarrow> bool" where
  "str_includes [] sub = (sub = [])"
| "str_includes (c # cs) sub = (startsWith (c # cs) sub \<or> str_includes cs sub)"

text \<open>\<open>String(n)\<close> for a non-negative integer: its decimal digits.\<close>

fun decimal :: "nat \<Rightarrow> jstring" where
  "decimal n = (if n < 10 then [0x30 + of_nat n]
                else decimal (n div 10) @ [0x30 + of_nat (n mod 10)])"

declare decimal.simps [simp del]

datatype provider_kind = Anthropic | OpenAI | Gemini | Ollama

text \<open>
  A thrown value: an \<open>Error\<close> instance with its \<open>name\<close> and \<open>message\<close>, or anything
  else (\<open>error instanceof Error\<close> is false). \<open>new Error(m)\<close> has the name \<open>Error\<close>.
\<close>

datatype thrown = ErrorObj jstring jstring | NonError

definition new_Error :: "jstring \<Rightarrow> thrown" where
  "new_Error m = ErrorObj (js ''Error'') m"

text \<open>
  An adapter object: the constructor stores the credential (the API key, for Ollama the
  endpoint) and the model; \<open>ready\<close> is \<open>client !== null\<close>, for Ollama \<open>initialized\<close>.
\<close>

record provider =
  kind :: provider_kind
  credential :: jstring
  model :: jstring
  ready :: bool

text \<open>
  \<open>endpoint.replace(/\/$/, '')\<close> in the constructor of the Ollama adapter: one slash at
  the end of the string is removed.
\<close>

definition remove_trailing_slash :: "jstring \<Rightarrow> jstring" where
  "remove_trailing_slash s = (if s \<noteq> [] \<and> last s = 0x2F then butlast s else s)"

text \<open>The four constructors.\<close>

definition new_provider :: "provider_kind \<Rightarrow> jstring \<Rightarrow> jstring \<Rightarrow> provider" where
  "new_provider k cred m =
     \<lparr> kind = k,
       credential = (if k = Ollama then remove_trailing_slash cred else cred),
       model = m, ready = False \<rparr>"

text \<open>
  What one pass through the \<open>try\<close> block of the retry loop does: the provider call raced
  against the timeout returns the text, or a value is thrown (a rejection of the call, the
  timeout's \<open>Error('API request timeout')\<close>, for Ollama the abort of the fetch, or the
  adapter's own \<open>Error\<close> for a response without content).
\<close>

datatype attempt_outcome = Returns jstring | Throws thrown

text \<open>
  The collaborators of an adapter. \<open>sdk_client k key\<close> is the constructor of the
  backend's SDK client (\<open>Some e\<close>: it throws \<open>e\<close>); \<open>url_valid\<close> says whether
  \<open>new URL(endpoint)\<close> succeeds; \<open>api n\<close> is the outcome of attempt \<open>n\<close> for the prompts
  and options of the call. \<open>sanitizeError\<close> is the adapter's redaction of credentials
  from a message, on which no property below depends. \<open>adapter_testConnection\<close> and
  \<open>adapter_getAvailableModels\<close> are the adapter's two remaining, network-bound methods.
\<close>

record platform =
  sdk_client :: "provider_kind \<Rightarrow> jstring \<Rightarrow> thrown option"
  url_valid :: "jstring \<Rightarrow> bool"
  api :: "nat \<Rightarrow> attempt_outcome"
  sanitizeError :: "provider_kind \<Rightarrow> thrown \<Rightarrow> jstring"
  adapter_testConnection :: "provider \<Rightarrow> thrown + bool"
  adapter_getAvailableModels :: "provider \<Rightarrow> jstring list"

definition provider_name :: "provider_kind \<Rightarrow> jstring" where
  "provider_name k = (case k of Anthropic \<Rightarrow> js ''Anthropic'' | OpenAI \<Rightarrow> js ''OpenAI''
                      | Gemini \<Rightarrow> js ''Gemini'' | Ollama \<Rightarrow> js ''Ollama'')"

text \<open>
  \<open>initialize\<close> of the four adapters. The three cloud adapters differ in the SDK and in
  the provider name of the message only.
\<close>

definition initialize :: "platform \<Rightarrow> provider \<Rightarrow> thrown + provider" where
  "initialize pf p =
     (if kind p = Ollama then
        if credential p = [] \<or> length (trim (credential p)) = 0
        then Inl (new_Error (js ''Endpoint is required''))
        else if url_valid pf (credential p) then Inr (p\<lparr>ready := True\<rparr>)
        else Inl (new_Error (js ''Invalid Ollama endpoint URL: '' @ credential p))
      else
        if credential p = [] \<or> length (trim (credential p)) = 0
        then Inl (new_Error (js ''API key is required''))
        else
          (case sdk_client pf (kind p) (credential p) of
             None \<Rightarrow> Inr (p\<lparr>ready := True\<rparr>)
           | Some error \<Rightarrow>
               Inl (new_Error (js ''Failed to initialize '' @ provider_name (kind p) @
                      js '' provider: '' @
                      (case error of ErrorObj n m \<Rightarrow> m | NonError \<Rightarrow> js ''Unknown error'')))))"

definition isInitialized :: "provider \<Rightarrow> bool" where
  "isInitialized p = ready p"

definition getModel :: "provider \<Rightarrow> jstring" where
  "getModel p = model p"

definition setModel :: "provider \<Rightarrow> jstring \<Rightarrow> provider" where
  "setModel p m = p\<lparr>model := m\<rparr>"

definition maxRetries :: nat where
  "maxRetries = 3"

definition baseDelay :: "provider_kind \<Rightarrow> nat" where
  "baseDelay k = (if k = Ollama then 2000 else 1000)"

text \<open>What a \<open>catch\<close> block of the retry loop ends in: a \<open>throw\<close>, or a sleep and the next attempt.\<close>

datatype catch_action = Throw thrown | SleepThenRetry nat

text \<open>
  The tail shared by the four \<open>catch\<close> blocks ("network or other transient errors").
\<close>

definition other_error :: "provider_kind \<Rightarrow> jstring \<Rightarrow> nat \<Rightarrow> catch_action" where
  "other_error k errorMessage attempt =
     (if attempt = maxRetries
      then Throw (new_Error (js ''API call failed after '' @ decimal maxRetries @
                              js '' attempts: '' @ errorMessage))
      else SleepThenRetry (baseDelay k * 2 ^ (attempt - 1)))"

definition rate_limited :: "provider_kind \<Rightarrow> nat \<Rightarrow> catch_action" where
  "rate_limited k attempt =
     (if attempt = maxRetries
      then Throw (new_Error (js ''Rate limit exceeded. Please try again later.''))
      else SleepThenRetry (baseDelay k * 2 ^ attempt * 2))"

definition timed_out :: "provider_kind \<Rightarrow> nat \<Rightarrow> catch_action" where
  "timed_out k attempt =
     (if attempt = maxRetries
      then Throw (new_Error (if k = Ollama
             then js ''Request timed out. Your local model may be too slow or overloaded.''
             else js ''API request timed out. Please check your connection and try again.''))
      else SleepThenRetry (baseDelay k * 2 ^ (attempt - 1)))"

definition anthropic_catch :: "jstring \<Rightarrow> nat \<Rightarrow> thrown \<Rightarrow> catch_action" where
  "anthropic_catch errorMessage attempt error =
     (case error of
        ErrorObj name message \<Rightarrow>
          if str_includes message (js ''401'') \<or> str_includes message (js ''authentication'')
          then Throw (new_Error
                 (js ''Invalid API key. Please check your Anthropic API key in settings.''))
          else if str_includes message (js ''429'') \<or> str_includes message (js ''rate limit'')
          then rate_limited Anthropic attempt
          else if str_includes message (js ''timeout'')
          then timed_out Anthropic attempt
          else other_error Anthropic errorMessage attempt
      | NonError \<Rightarrow> other_error Anthropic errorMessage attempt)"

definition openai_catch :: "jstring \<Rightarrow> nat \<Rightarrow> thrown \<Rightarrow> catch_action" where
  "openai_catch errorMessage attempt error =
     (case error of
        ErrorObj name message \<Rightarrow>
          if str_includes message (js ''401'') \<or> str_includes message (js ''authentication'') \<or>
             str_includes message (js ''invalid_api_key'')
          then Throw (new_Error
                 (js ''Invalid API key. Please check your OpenAI API key in settings.''))
          else if str_includes message (js ''429'') \<or> str_includes message (js ''rate_limit'')
          then rate_limited OpenAI attempt
          else if str_includes message (js ''timeout'')
          then timed_out OpenAI attempt
          else if str_includes message (js ''insufficient_quota'')
          then Throw (new_Error
                 (js ''OpenAI quota exceeded. Please check your billing settings.''))
          else other_error OpenAI errorMessage attempt
      | NonError \<Rightarrow> other_error OpenAI errorMessage attempt)"

definition gemini_catch :: "jstring \<Rightarrow> nat \<Rightarrow> thrown \<Rightarrow> catch_action" where
  "gemini_catch errorMessage attempt error =
     (case error of
        ErrorObj name message \<Rightarrow>
          if str_includes message (js ''401'') \<or> str_includes message (js ''403'') \<or>
             str_includes message (js ''API_KEY_INVALID'') \<or>
             str_includes message (js ''authentication'')
          then Throw (new_Error
                 (js ''Invalid API key. Please check your Gemini API key in settings.''))
          else if str_includes message (js ''429'') \<or>
                  str_includes message (js ''RESOURCE_EXHAUSTED'') \<or>
                  str_includes message (js ''rate limit'')
          then rate_limited Gemini attempt
          else if str_includes message (js ''timeout'')
          then timed_out Gemini attempt
          else if str_includes message (js ''quota'') \<or> str_includes message (js ''QUOTA_EXCEEDED'')
          then Throw (new_Error
                 (js ''Gemini quota exceeded. Please check your billing settings.''))
          else if str_includes message (js ''SAFETY'') \<or> str_includes message (js ''blocked'')
          then Throw (new_Error
                 (js ''Content was blocked by Gemini safety filters. Please try different input.''))
          else other_error Gemini errorMessage attempt
      | NonError \<Rightarrow> other_error Gemini errorMessage attempt)"

definition ollama_catch :: "jstring \<Rightarrow> jstring \<Rightarrow> nat \<Rightarrow> thrown \<Rightarrow> catch_action" where
  "ollama_catch endpoint errorMessage attempt error =
     (case error of
        ErrorObj name message \<Rightarrow>
          if name = js ''AbortError''
          then timed_out Ollama attempt
          else if str_includes message (js ''Failed to fetch'') \<or>
                  str_includes message (js ''NetworkError'') \<or>
                  str_includes message (js ''fetch failed'')
          then Throw (new_Error (js ''Cannot connect to Ollama server at '' @ endpoint @
                                  js ''. Is Ollama running?''))
          else if str_includes message (js ''Model'') \<and> str_includes message (js ''not found'')
          then Throw error
          else other_error Ollama errorMessage attempt
      | NonError \<Rightarrow> other_error Ollama errorMessage attempt)"

text \<open>The \<open>catch\<close> block of the adapter \<open>p\<close> (dynamic dispatch on the adapter's class).\<close>

definition catch_block :: "platform \<Rightarrow> provider \<Rightarrow> nat \<Rightarrow> thrown \<Rightarrow> catch_action" where
  "catch_block pf p attempt error =
     (let errorMessage = sanitizeError pf (kind p) error in
      case kind p of
        Anthropic \<Rightarrow> anthropic_catch errorMessage attempt error
      | OpenAI \<Rightarrow> openai_catch errorMessage attempt error
      | Gemini \<Rightarrow> gemini_catch errorMessage attempt error
      | Ollama \<Rightarrow> ollama_catch (credential p) errorMessage attempt error)"

text \<open>
  The result of \<open>callAPI\<close> with what a test double observes: the value returned or
  thrown, the \<open>sleep\<close> delays in order, the number of attempts made, and the adapter.
\<close>

record call_result =
  outcome :: "thrown + jstring"
  delays :: "nat list"
  attempts :: nat
  adapter :: provider

text \<open>
  The loop \<open>for (let attempt = 1; attempt <= maxRetries; attempt++)\<close>, entered at
  \<open>attempt\<close> with the delays slept so far; behind the loop stands the final \<open>throw\<close>.
\<close>

function retry_loop :: "platform \<Rightarrow> provider \<Rightarrow> nat \<Rightarrow> nat list \<Rightarrow> call_result" where
  "retry_loop pf p attempt slept =
     (if attempt \<le> maxRetries then
        (case api pf attempt of
           Returns text \<Rightarrow>
             \<lparr> outcome = Inr text, delays = slept, attempts = attempt, adapter = p \<rparr>
         | Throws error \<Rightarrow>
             (case catch_block pf p attempt error of
                Throw e \<Rightarrow>
                  \<lparr> outcome = Inl e, delays = slept, attempts = attempt, adapter = p \<rparr>
              | SleepThenRetry delay \<Rightarrow> retry_loop pf p (attempt + 1) (slept @ [delay])))
      else \<lparr> outcome = Inl (new_Error (js ''API call failed: Maximum retries exceeded'')),
             delays = slept, attempts = attempt - 1, adapter = p \<rparr>)"
  by pat_completeness auto
termination
  by (relation "measure (\<lambda>(pf, p, attempt, slept). maxRetries + 1 - attempt)") auto

declare retry_loop.simps [simp del]

text \<open>\<open>callAPI\<close>: initialise the adapter if it is not ready, then run the loop.\<close>

definition callAPI :: "platform \<Rightarrow> provider \<Rightarrow> call_result" where
  "callAPI pf p =
     (if \<not> ready p then
        (case initialize pf p of
           Inl e \<Rightarrow> \<lparr> outcome = Inl e, delays = [], attempts = 0, adapter = p \<rparr>
         | Inr p' \<Rightarrow> retry_loop pf p' 1 [])
      else retry_loop pf p 1 [])"

text \<open>
  The failure classes of the \<open>catch\<close> blocks, in the order the blocks test them: the
  first test is the auth class, the second the rate-limit class, the third the timeout
  class. The Ollama adapter tests for none of the first two; its timeout is the abort of
  the fetch.
\<close>

definition is_auth_failure :: "provider_kind \<Rightarrow> thrown \<Rightarrow> bool" where
  "is_auth_failure k error =
     (case error of
        ErrorObj name message \<Rightarrow>
          (case k of
             Anthropic \<Rightarrow>
               str_includes message (js ''401'') \<or> str_includes message (js ''authentication'')
           | OpenAI \<Rightarrow>
               str_includes message (js ''401'') \<or> str_includes message (js ''authentication'') \<or>
               str_includes message (js ''invalid_api_key'')
           | Gemini \<Rightarrow>
               str_includes message (js ''401'') \<or> str_includes message (js ''403'') \<or>
               str_includes message (js ''API_KEY_INVALID'') \<or>
               str_includes message (js ''authentication'')
           | Ollama \<Rightarrow> False)
      | NonError \<Rightarrow> False)"

definition is_rate_limit_failure :: "provider_kind \<Rightarrow> thrown \<Rightarrow> bool" where
  "is_rate_limit_failure k error =
     (\<not> is_auth_failure k error \<and>
      (case error of
         ErrorObj name message \<Rightarrow>
           (case k of
              Anthropic \<Rightarrow>
                str_includes message (js ''429'') \<or> str_includes message (js ''rate limit'')
            | OpenAI \<Rightarrow>
                str_includes message (js ''429'') \<or> str_includes message (js ''rate_limit'')
            | Gemini \<Rightarrow>
                str_includes message (js ''429'') \<or>
                str_includes message (js ''RESOURCE_EXHAUSTED'') \<or>
                str_includes message (js ''rate limit'')
            | Ollama \<Rightarrow> False)
       | NonError \<Rightarrow> False))"

definition is_timeout_failure :: "provider_kind \<Rightarrow> thrown \<Rightarrow> bool" where
  "is_timeout_failure k error =
     (\<not> is_auth_failure k error \<and> \<not> is_rate_limit_failure k error \<and>
      (case error of
         ErrorObj name message \<Rightarrow>
           (if k = Ollama then name = js ''AbortError''
            else str_includes message (js ''timeout''))
       | NonError \<Rightarrow> False))"

definition auth_message :: "provider_kind \<Rightarrow> jstring" where
  "auth_message k =
     js ''Invalid API key. Please check your '' @ provider_name k @ js '' API key in settings.''"

text \<open>
  The failures a \<open>catch\<close> block ends on without a retry, other than auth failures (quota
  and safety blocks; for Ollama an unreachable server and a missing model), and the
  remaining ones, which reach the shared tail.
\<close>

definition is_terminal_failure :: "provider_kind \<Rightarrow> thrown \<Rightarrow> bool" where
  "is_terminal_failure k error =
     (\<not> is_auth_failure k error \<and> \<not> is_rate_limit_failure k error \<and>
      \<not> is_timeout_failure k error \<and>
      (case error of
         ErrorObj name message \<Rightarrow>
           (case k of
              Anthropic \<Rightarrow> False
            | OpenAI \<Rightarrow> str_includes message (js ''insufficient_quota'')
            | Gemini \<Rightarrow>
                str_includes message (js ''quota'') \<or>
                str_includes message (js ''QUOTA_EXCEEDED'') \<or>
                str_includes message (js ''SAFETY'') \<or> str_includes message (js ''blocked'')
            | Ollama \<Rightarrow>
                str_includes message (js ''Failed to fetch'') \<or>
                str_includes message (js ''NetworkError'') \<or>
                str_includes message (js ''fetch failed'') \<or>
                (str_includes message (js ''Model'') \<and> str_includes message (js ''not found'')))
       | NonError \<Rightarrow> False))"

definition is_other_failure :: "provider_kind \<Rightarrow> thrown \<Rightarrow> bool" where
  "is_other_failure k error =
     (\<not> is_auth_failure k error \<and> \<not> is_rate_limit_failure k error \<and>
      \<not> is_timeout_failure k error \<and> \<not> is_terminal_failure k error)"

text \<open>
  The adapter behind the first statement of \<open>callAPI\<close>,
  \<open>if (!this.client) this.initialize()\<close>, when that statement does not throw.
\<close>

definition ensure_initialized :: "platform \<Rightarrow> provider \<Rightarrow> provider option" where
  "ensure_initialized pf p =
     (if ready p then Some p
      else case initialize pf p of Inr p' \<Rightarrow> Some p' | Inl e \<Rightarrow> None)"

section \<open>Client facade (LLMClient)\<close>

text \<open>
  \<open>ProviderConfig\<close>: \<open>apiKey\<close> and \<open>endpoint\<close> are optional (\<open>None\<close> is \<open>undefined\<close>); the
  \<open>options\<close> field is not read by the facade.
\<close>

record ProviderConfig =
  apiKey :: "jstring option"
  config_model :: jstring
  endpoint :: "jstring option"

text \<open>The facade holds its adapter in the private field \<open>provider\<close>.\<close>

record LLMClient =
  client_provider :: provider

text \<open>The tags of \<open>LLMProviderType\<close>, the \<open>case\<close> labels of the \<open>switch\<close>.\<close>

definition provider_tag :: "provider_kind \<Rightarrow> jstring" where
  "provider_tag k = (case k of Anthropic \<Rightarrow> js ''anthropic'' | OpenAI \<Rightarrow> js ''openai''
                     | Gemini \<Rightarrow> js ''gemini'' | Ollama \<Rightarrow> js ''ollama'')"

text \<open>
  \<open>createFromConfig\<close>. The \<open>switch\<close> compares \<open>providerType.toLowerCase()\<close> with the
  labels in order; \<open>!config.apiKey\<close> holds for \<open>undefined\<close> and for the empty string.
\<close>

definition createFromConfig ::
  "(jstring \<Rightarrow> jstring) \<Rightarrow> jstring \<Rightarrow> ProviderConfig \<Rightarrow> thrown + LLMClient" where
  "createFromConfig toLowerCase providerType config =
     (let tag = toLowerCase providerType in
      if tag = js ''anthropic'' then
        (case apiKey config of
           Some key \<Rightarrow>
             if key = [] then Inl (new_Error (js ''Anthropic provider requires API key''))
             else Inr \<lparr> client_provider = new_provider Anthropic key (config_model config) \<rparr>
         | None \<Rightarrow> Inl (new_Error (js ''Anthropic provider requires API key'')))
      else if tag = js ''openai'' then
        (case apiKey config of
           Some key \<Rightarrow>
             if key = [] then Inl (new_Error (js ''OpenAI provider requires API key''))
             else Inr \<lparr> client_provider = new_provider OpenAI key (config_model config) \<rparr>
         | None \<Rightarrow> Inl (new_Error (js ''OpenAI provider requires API key'')))
      else if tag = js ''gemini'' then
        (case apiKey config of
           Some key \<Rightarrow>
             if key = [] then Inl (new_Error (js ''Gemini provider requires API key''))
             else Inr \<lparr> client_provider = new_provider Gemini key (config_model config) \<rparr>
         | None \<Rightarrow> Inl (new_Error (js ''Gemini provider requires API key'')))
      else if tag = js ''ollama'' then
        (case endpoint config of
           Some url \<Rightarrow>
             if url = [] then Inl (new_Error (js ''Ollama provider requires endpoint''))
             else Inr \<lparr> client_provider = new_provider Ollama url (config_model config) \<rparr>
         | None \<Rightarrow> Inl (new_Error (js ''Ollama provider requires endpoint'')))
      else Inl (new_Error (js ''Unknown provider type: '' @ providerType)))"

text \<open>
  The delegation methods. \<open>initialize\<close> and \<open>setModel\<close> change the adapter in place; the
  client afterwards holds the changed adapter.
\<close>

definition LLMClient_initialize :: "platform \<Rightarrow> LLMClient \<Rightarrow> thrown + LLMClient" where
  "LLMClient_initialize pf c =
     (case initialize pf (client_provider c) of
        Inl e \<Rightarrow> Inl e
      | Inr p \<Rightarrow> Inr (c\<lparr>client_provider := p\<rparr>))"

definition LLMClient_callAPI :: "platform \<Rightarrow> LLMClient \<Rightarrow> call_result" where
  "LLMClient_callAPI pf c = callAPI pf (client_provider c)"

definition LLMClient_testConnection :: "platform \<Rightarrow> LLMClient \<Rightarrow> thrown + bool" where
  "LLMClient_testConnection pf c = adapter_testConnection pf (client_provider c)"

definition LLMClient_getAvailableModels :: "platform \<Rightarrow> LLMClient \<Rightarrow> jstring list" where
  "LLMClient_getAvailableModels pf c = adapter_getAvailableModels pf (client_provider c)"

definition LLMClient_isInitialized :: "LLMClient \<Rightarrow> bool" where
  "LLMClient_isInitialized c = isInitialized (client_provider c)"

definition LLMClient_getModel :: "LLMClient \<Rightarrow> jstring" where
  "LLMClient_getModel c = getModel (client_provider c)"

definition LLMClient_setModel :: "LLMClient \<Rightarrow> jstring \<Rightarrow> LLMClient" where
  "LLMClient_setModel c m = c\<lparr>client_provider := setModel (client_provider c) m\<rparr>"

text \<open>The credential \<open>createFromConfig\<close> requires for a provider type, when it is usable.\<close>

definition required_credential :: "provider_kind \<Rightarrow> ProviderConfig \<Rightarrow> jstring option" where
  "required_credential k config =
     (case (if k = Ollama then endpoint config else apiKey config) of
        Some c \<Rightarrow> if c = [] then None else Some c
      | None \<Rightarrow> None)"

section \<open>Dates\<close>

text \<open>
  A \<open>Date\<close> holds a time value, the milliseconds since the epoch in UTC. The functions
  below follow ECMAScript's definitions: \<open>Day(t) = floor(t / msPerDay)\<close>,
  \<open>TimeWithinDay(t) = t modulo msPerDay\<close>, and the proleptic Gregorian calendar for the
  year, month and date of a day number.
\<close>

definition msPerDay :: int where
  "msPerDay = 86400000"

definition Day :: "int \<Rightarrow> int" where
  "Day t = t div msPerDay"

definition TimeWithinDay :: "int \<Rightarrow> int" where
  "TimeWithinDay t = t mod msPerDay"

text \<open>Year, month (1 to 12) and date (1 to 31) of a day number counted from 1970-01-01.\<close>

definition civil_from_days :: "int \<Rightarrow> int \<times> int \<times> int" where
  "civil_from_days z0 =
     (let z = z0 + 719468;
          era = z div 146097;
          doe = z - era * 146097;
          yoe = (doe - doe div 1460 + doe div 36524 - doe div 146096) div 365;
          doy = doe - (365 * yoe + yoe div 4 - yoe div 100);
          mp = (5 * doy + 2) div 153;
          d = doy - (153 * mp + 2) div 5 + 1;
          m = (if mp < 10 then mp + 3 else mp - 9);
          y = yoe + era * 400 + (if m \<le> 2 then 1 else 0)
      in (y, m, d))"

text \<open>\<open>String(n)\<close> for an integer, and \<open>s.padStart(n, '0')\<close>.\<close>

definition String_int :: "int \<Rightarrow> jstring" where
  "String_int i = (if i < 0 then 0x2D # decimal (nat (- i)) else decimal (nat i))"

definition padStart0 :: "jstring \<Rightarrow> nat \<Rightarrow> jstring" where
  "padStart0 s n = replicate (n - length s) 0x30 @ s"

text \<open>
  \<open>toISOString\<close> of a valid time value: \<open>YYYY-MM-DDTHH:mm:ss.sssZ\<close> in UTC, the year
  with four digits from 0 to 9999 and with a sign and six digits otherwise.
\<close>

definition toISOString :: "int \<Rightarrow> jstring" where
  "toISOString t =
     (case civil_from_days (Day t) of (y, m, d) \<Rightarrow>
        (let ms = TimeWithinDay t;
             year = (if 0 \<le> y \<and> y \<le> 9999 then padStart0 (String_int y) 4
                     else (if y < 0 then js ''-'' else js ''+'') @ padStart0 (String_int (abs y)) 6)
         in year @ js ''-'' @ padStart0 (String_int m) 2 @ js ''-'' @ padStart0 (String_int d) 2 @
            js ''T'' @ padStart0 (String_int (ms div 3600000)) 2 @ js '':'' @
            padStart0 (String_int (ms div 60000 mod 60)) 2 @ js '':'' @
            padStart0 (String_int (ms div 1000 mod 60)) 2 @ js ''.'' @
            padStart0 (String_int (ms mod 1000)) 3 @ js ''Z''))"

text \<open>
  The local time zone: the offset of local time from UTC at a UTC time value, and at a
  local time value (ECMAScript's LocalTZA with \<open>isUTC\<close> true and false).
\<close>

record timezone =
  offset_at_utc :: "int \<Rightarrow> int"
  offset_at_local :: "int \<Rightarrow> int"

definition LocalTime :: "timezone \<Rightarrow> int \<Rightarrow> int" where
  "LocalTime tz t = t + offset_at_utc tz t"




section \<open>Cooldown scheduler (CooldownManager)\<close>

text \<open>A file of the vault as the source reads it: its path and its name without extension.\<close>

record TFile =
  path :: jstring
  basename :: jstring



text \<open>
  The text of \<open>.cooldown.json\<close> and of its backup, up to \<open>JSON.parse\<close> and
  \<open>JSON.stringify\<close>: a text that \<open>JSON.parse\<close> rejects, or a text with the value that
  \<open>JSON.parse\<close> gives it, whatever that value is; \<open>JSON.stringify(data, null, 2)\<close>
  writes a text that parses to \<open>data\<close> again. A file that is missing is \<open>None\<close>.
\<close>

datatype file_content = Unparseable jstring | Parsed json

record disk =
  index_file :: "file_content option"
  backup_file :: "file_content option"

text \<open>
  The vault adapter's \<open>exists\<close>, \<open>read\<close> and \<open>write\<close> can throw; \<open>Some e\<close> says that a call
  throws \<open>e\<close>. \<open>write\<close> is called on the backup path and on the index path.
\<close>

datatype write_target = BackupPath | IndexPath

record faults =
  exists_fault :: "thrown option"
  read_fault :: "thrown option"
  write_fault :: "write_target \<Rightarrow> thrown option"

definition no_faults :: faults where
  "no_faults = \<lparr> exists_fault = None, read_fault = None, write_fault = (\<lambda>t. None) \<rparr>"

text \<open>
  The data object of the scheduler is the list of its properties. \<open>data.k = v\<close> keeps
  the place of a property the object has and appends a new one.
\<close>

type_synonym cooldown_data = "(jstring \<times> json) list"


text \<open>\<open>data.entries\<close> of a data object whose \<open>entries\<close> is an array.\<close>

definition data_entries :: "cooldown_data \<Rightarrow> json list" where
  "data_entries data = (case map_of data (js ''entries'') of Some (JArr es) \<Rightarrow> es | _ \<Rightarrow> [])"

definition empty_data :: "int \<Rightarrow> cooldown_data" where
  "empty_data now = [(js ''entries'', JArr []), (js ''lastChecked'', JStr (toISOString now))]"

text \<open>
  \<open>loadCooldownData\<close>: every failure inside the \<open>try\<close> block gives the empty data, whose
  \<open>lastChecked\<close> is a reading of the clock, \<open>now\<close>. The parsed value is returned as it is,
  unchecked, when it is an object whose \<open>entries\<close> is an array. For \<open>null\<close> the test of
  \<open>data.entries\<close> throws inside the \<open>try\<close>; a string, number or boolean has no \<open>entries\<close>;
  the \<open>entries\<close> of an array is a method, which is not an array.
\<close>

definition loadCooldownData :: "faults \<Rightarrow> int \<Rightarrow> disk \<Rightarrow> cooldown_data" where
  "loadCooldownData f now d =
     (case exists_fault f of
        Some e \<Rightarrow> empty_data now
      | None \<Rightarrow>
          (case index_file d of
             None \<Rightarrow> empty_data now
           | Some content \<Rightarrow>
               (case read_fault f of
                  Some e \<Rightarrow> empty_data now
                | None \<Rightarrow>
                    (case content of
                       Unparseable t \<Rightarrow> empty_data now
                     | Parsed (JObj data) \<Rightarrow>
                         (case map_of data (js ''entries'') of
                            Some (JArr es) \<Rightarrow> data
                          | _ \<Rightarrow> empty_data now)
                     | Parsed _ \<Rightarrow> empty_data now))))"












text \<open>The entries a fault-free load finds in the index.\<close>

definition index_entries :: "disk \<Rightarrow> json list" where
  "index_entries d =
     (case index_file d of
        Some (Parsed (JObj data)) \<Rightarrow> data_entries data
      | _ \<Rightarrow> [])"

section \<open>Entry store: identifiers (FileManager)\<close>

text \<open>
  \<open>basename.match(/_(\d{3})$/)\<close> and \<open>parseInt\<close> of the group: the value of the last
  three code units when they are digits behind an underscore.
\<close>

definition digit_value :: "16 word \<Rightarrow> nat" where
  "digit_value c = unat c - 48"

definition match_sequence_suffix :: "jstring \<Rightarrow> nat option" where
  "match_sequence_suffix b =
     (case rev b of
        d3 # d2 # d1 # u # front \<Rightarrow>
          if u = 0x5F \<and> is_digit d1 \<and> is_digit d2 \<and> is_digit d3
          then Some (100 * digit_value d1 + 10 * digit_value d2 + digit_value d3)
          else None
      | _ \<Rightarrow> None)"

text \<open>\<open>Math.max(...numbers)\<close> for a non-empty list of positive numbers.\<close>

definition Math_max :: "nat list \<Rightarrow> nat" where
  "Math_max ns = foldr max ns 0"

text \<open>\<open>vault.adapter.exists(p)\<close> in a vault that holds the given files.\<close>

definition adapter_exists :: "TFile list \<Rightarrow> jstring \<Rightarrow> bool" where
  "adapter_exists vault p = (p \<in> set (map path vault))"

definition make_id :: "jstring \<Rightarrow> nat \<Rightarrow> jstring" where
  "make_id dateStr n = dateStr @ js ''_'' @ padStart0 (decimal n) 3"

text \<open>The \<open>while (attempt < maxAttempts)\<close> loop, entered with \<open>attempt\<close> and \<open>id\<close>.\<close>

function id_loop ::
  "(jstring \<Rightarrow> jstring) \<Rightarrow> TFile list \<Rightarrow> jstring \<Rightarrow> jstring \<Rightarrow> nat \<Rightarrow> nat \<Rightarrow> jstring
     \<Rightarrow> thrown + jstring" where
  "id_loop normalizePath vault rawFolder dateStr nextNum attempt ident =
     (if attempt < 100 then
        if \<not> adapter_exists vault (normalizePath (rawFolder @ js ''/'' @ ident @ js ''.md''))
        then Inr ident
        else id_loop normalizePath vault rawFolder dateStr nextNum (attempt + 1)
               (make_id dateStr (nextNum + (attempt + 1)))
      else Inl (new_Error (js ''Failed to generate unique weaklog ID after 100 attempts'')))"
  by pat_completeness auto
termination
  by (relation "measure (\<lambda>(np, v, r, ds, n, attempt, i). 100 - attempt)") auto

declare id_loop.simps [simp del]

text \<open>
  \<open>generateWeaklogId\<close>. \<open>normalizePath\<close> is Obsidian's, a parameter; \<open>now\<close> is the time
  value of \<open>new Date()\<close>, read in the local time zone.
\<close>

definition generateWeaklogId ::
  "(jstring \<Rightarrow> jstring) \<Rightarrow> jstring \<Rightarrow> timezone \<Rightarrow> int \<Rightarrow> TFile list \<Rightarrow> thrown + jstring" where
  "generateWeaklogId normalizePath weaklogFolderPath tz now vault =
     (case civil_from_days (Day (LocalTime tz now)) of (year, month, day) \<Rightarrow>
        (let dateStr = String_int year @ js ''-'' @ padStart0 (String_int month) 2 @ js ''-'' @
                       padStart0 (String_int day) 2;
             rawFolder = weaklogFolderPath @ js ''/01_Raw'';
             files = filter (\<lambda>f. startsWith (path f) rawFolder \<and>
                                  startsWith (basename f) dateStr) vault;
             numbers = filter (\<lambda>n. n > 0)
                         (map (\<lambda>f. case match_sequence_suffix (basename f) of
                                      Some n \<Rightarrow> n | None \<Rightarrow> 0) files);
             nextNum = (if length numbers > 0 then Math_max numbers + 1 else 1)
         in id_loop normalizePath vault rawFolder dateStr nextNum 0 (make_id dateStr nextNum)))"

section \<open>Example inputs\<close>

text \<open>
  The inputs of the worked examples. \<open>JSON_parse_sample\<close> is \<open>JSON.parse\<close> on the
  JSON texts of the examples, each with the value the platform's parser gives it; the
  examples call it on these texts only.
\<close>

definition sample_now :: jstring where
  "sample_now = js ''2026-01-27T09:30:00.000Z''"

definition sample_content :: jstring where
  "sample_content = js ''I keep avoiding hard conversations at work because I fear conflict''"

definition sample_triage_text :: jstring where
  \<open>sample_triage_text = js ''{"checks":{"hasSpecifics":{"pass":true,"reason":"names a meeting"},"canBeCorePhrase":{"pass":true,"reason":"short"},"isTransferable":{"pass":true,"reason":"common"},"isNonHarmful":{"pass":true,"reason":"safe"}},"coreQuestion":"Why do I avoid conflict at work?","score":0,"recommendation":"reject"}''\<close>

definition sample_triage_json :: json where
  "sample_triage_json = JObj
     [(js ''checks'', JObj
        [(js ''hasSpecifics'', JObj [(js ''pass'', JBool True), (js ''reason'', JStr (js ''names a meeting''))]),
         (js ''canBeCorePhrase'', JObj [(js ''pass'', JBool True), (js ''reason'', JStr (js ''short''))]),
         (js ''isTransferable'', JObj [(js ''pass'', JBool True), (js ''reason'', JStr (js ''common''))]),
         (js ''isNonHarmful'', JObj [(js ''pass'', JBool True), (js ''reason'', JStr (js ''safe''))])]),
      (js ''coreQuestion'', JStr (js ''Why do I avoid conflict at work?'')),
      (js ''score'', JNum (Finite 0)),
      (js ''recommendation'', JStr (js ''reject''))]"


text \<open>
  A synthesis response with four array elements, two of them with list markers and one
  blank, and one with two questions only.
\<close>

definition sample_synthesis_text :: jstring where
  \<open>sample_synthesis_text = js ''{"questions":["1. What did you fear?","- Who else feels this?","  ","How would you act differently?"],"suggestedTone":"Analytical"}''\<close>

definition sample_synthesis_json :: json where
  "sample_synthesis_json = JObj
     [(js ''questions'', JArr
        [JStr (js ''1. What did you fear?''), JStr (js ''- Who else feels this?''),
         JStr (js ''  ''), JStr (js ''How would you act differently?'')]),
      (js ''suggestedTone'', JStr (js ''Analytical''))]"

definition sample_two_questions_text :: jstring where
  \<open>sample_two_questions_text = js ''{"questions":["What did you fear?","Who else feels this?"],"suggestedTone":"reflective"}''\<close>

definition sample_two_questions_json :: json where
  "sample_two_questions_json = JObj
     [(js ''questions'', JArr [JStr (js ''What did you fear?''), JStr (js ''Who else feels this?'')]),
      (js ''suggestedTone'', JStr (js ''reflective''))]"

text \<open>\<open>toLowerCase\<close> on ASCII strings: the letters A to Z move to a to z.\<close>

definition toLowerCase_ascii :: "jstring \<Rightarrow> jstring" where
  "toLowerCase_ascii s = map (\<lambda>c. if 0x41 \<le> c \<and> c \<le> 0x5A then c + 0x20 else c) s"

text \<open>
  A synthesis response whose questions carry a marker behind a space and two markers in
  a row.
\<close>

definition sample_marked_questions_text :: jstring where
  \<open>sample_marked_questions_text = js ''{"questions":[" 1. What did you fear?","- 2. Who else feels this?","How would you act differently?"],"suggestedTone":"reflective"}''\<close>

definition sample_marked_questions_json :: json where
  "sample_marked_questions_json = JObj
     [(js ''questions'', JArr
        [JStr (js '' 1. What did you fear?''), JStr (js ''- 2. Who else feels this?''),
         JStr (js ''How would you act differently?'')]),
      (js ''suggestedTone'', JStr (js ''reflective''))]"

definition JSON_parse_sample :: "jstring \<Rightarrow> json option" where
  "JSON_parse_sample s =
     (if s = sample_triage_text then Some sample_triage_json
      else if s = sample_synthesis_text then Some sample_synthesis_json
      else if s = sample_two_questions_text then Some sample_two_questions_json
      else if s = sample_marked_questions_text then Some sample_marked_questions_json
      else None)"

text \<open>
  A platform for the adapter examples: the attempts of a call have the injected
  outcomes, in order; the SDK constructors and the URL check succeed; the messages of
  the examples hold no credential, so that redaction leaves them as they are.
\<close>

definition injected :: "attempt_outcome list \<Rightarrow> nat \<Rightarrow> attempt_outcome" where
  "injected outcomes n =
     (if 1 \<le> n \<and> n \<le> length outcomes then outcomes ! (n - 1) else Throws NonError)"

definition sample_platform :: "attempt_outcome list \<Rightarrow> platform" where
  "sample_platform outcomes =
     \<lparr> sdk_client = (\<lambda>k key. None),
       url_valid = (\<lambda>u. True),
       api = injected outcomes,
       sanitizeError = (\<lambda>k e. case e of ErrorObj n m \<Rightarrow> m | NonError \<Rightarrow> js ''Unknown error''),
       adapter_testConnection = (\<lambda>p. Inr True),
       adapter_getAvailableModels = (\<lambda>p. []) \<rparr>"

definition sample_rate_limit_error :: thrown where
  "sample_rate_limit_error = new_Error (js ''429 Too Many Requests: rate limit exceeded'')"

definition sample_auth_error :: thrown where
  "sample_auth_error = new_Error (js ''401 Unauthorized'')"

definition sample_timeout_error :: thrown where
  "sample_timeout_error = new_Error (js ''API request timeout'')"

definition sample_network_error :: thrown where
  "sample_network_error = new_Error (js ''socket hang up'')"

definition sample_ollama_429 :: thrown where
  "sample_ollama_429 = new_Error (js ''Ollama API error (429): rate limit exceeded'')"

definition sample_cloud_adapter :: "provider_kind \<Rightarrow> provider" where
  "sample_cloud_adapter k = (new_provider k (js ''test-key'') (js ''test-model'')) \<lparr> ready := True \<rparr>"

definition sample_ollama_adapter :: provider where
  "sample_ollama_adapter = new_provider Ollama (js ''http://localhost:11434'') (js ''llama2'')"

definition sample_openai_config :: ProviderConfig where
  "sample_openai_config =
     \<lparr> apiKey = Some (js ''test-key''), config_model = js ''gpt-4o'', endpoint = None \<rparr>"

definition sample_empty_config :: ProviderConfig where
  "sample_empty_config = \<lparr> apiKey = None, config_model = js ''llama2'', endpoint = None \<rparr>"

text \<open>
  Examples for the entry store and the scheduler: \<open>normalizePath\<close> on paths that are
  normalized already; UTC as the local zone; Central European time around the change to
  summer time on 2026-03-29 at 01:00 UTC (a local time in the skipped hour from 02:00 to
  03:00 is read with the offset before the change); a vault whose only entry of
  2026-01-27 has moved from the raw folder to the cooling folder.
\<close>

definition normalizePath_clean :: "jstring \<Rightarrow> jstring" where
  "normalizePath_clean p = p"

definition utc_zone :: timezone where
  "utc_zone = \<lparr> offset_at_utc = (\<lambda>t. 0), offset_at_local = (\<lambda>t. 0) \<rparr>"


definition sample_vault :: "TFile list" where
  "sample_vault =
     [\<lparr> path = js ''Weaklog/02_Cooling/2026-01-27_001.md'', basename = js ''2026-01-27_001'' \<rparr>]"












definition sample_ollama_config :: ProviderConfig where
  "sample_ollama_config =
     \<lparr> apiKey = None, config_model = js ''llama2'',
       endpoint = Some (js ''http://localhost:11434/'') \<rparr>"

section \<open>Triage evaluator: score, recommendation and fallback\<close>

lemma calculateRecommendation_iff:
  "(calculateRecommendation n = Adopt \<longleftrightarrow> n = 4) \<and>
   (calculateRecommendation n = Review \<longleftrightarrow> n = 2 \<or> n = 3 \<or> 4 < n) \<and>
   (calculateRecommendation n = Reject \<longleftrightarrow> n = 0 \<or> n = 1)"
  by (auto simp: calculateRecommendation_def)

lemma parseTriageBody_Inr:
  assumes "parseTriageBody P now resp = Inr r"
  shows "score r = length (filter pass (check_values (checks r))) \<and>
         recommendation r = calculateRecommendation (score r)"
  using assms
  by (auto simp: parseTriageBody_def Let_def split: option.splits sum.splits if_splits json.splits)

lemma passed_checks_le_4: "length (filter pass (check_values c)) \<le> 4"
  by (simp add: check_values_def)

lemma fallback_passed_checks:
  "length (filter pass (check_values (checks (createFallbackResult now content)))) = 1"
  by (simp add: createFallbackResult_def check_values_def)

lemma js_get_cases:
  "js_get (Some v) k = Inl TypeError \<or> js_get (Some v) k = Inr (js_get_opt (Some v) k)"
  by (cases v) auto

lemma parseTriageBody_fails:
  assumes "match_json_object resp = None \<or>
       (\<exists>m. match_json_object resp = Some m \<and>
          (P m = None \<or>
           (\<exists>parsed. P m = Some parsed \<and>
              (\<not> truthy (js_get_opt (Some parsed) (js ''checks'')) \<or>
               \<not> truthy (js_get_opt (Some parsed) (js ''coreQuestion''))))))"
  shows "\<exists>e. parseTriageBody P now resp = Inl e"
  using assms
proof (elim disjE exE conjE)
  assume "match_json_object resp = None"
  then show ?thesis by (simp add: parseTriageBody_def)
next
  fix m assume "match_json_object resp = Some m" "P m = None"
  then show ?thesis by (simp add: parseTriageBody_def)
next
  fix m parsed
  assume "match_json_object resp = Some m" "P m = Some parsed"
    "\<not> truthy (js_get_opt (Some parsed) (js ''checks''))"
  then show ?thesis
    using js_get_cases [of parsed "js ''checks''"]
    by (auto simp: parseTriageBody_def)
next
  fix m parsed
  assume "match_json_object resp = Some m" "P m = Some parsed"
    "\<not> truthy (js_get_opt (Some parsed) (js ''coreQuestion''))"
  then show ?thesis
    using js_get_cases [of parsed "js ''checks''"] js_get_cases [of parsed "js ''coreQuestion''"]
    by (auto simp: parseTriageBody_def)
qed

lemma sample_triage_match:
  "match_json_object (js ''Evaluation: '' @ sample_triage_text) = Some sample_triage_text"
  by (simp add: match_json_object_def js_def lbrace_def rbrace_def sample_triage_text_def)

lemma sample_no_match:
  "match_json_object (js ''I cannot evaluate this entry.'') = None"
  by (simp add: match_json_object_def js_def lbrace_def)

text \<open>
  C1 as stated fails on the fallback: an unparseable response gives score 1 with
  recommendation \<open>review\<close>, where the thresholds give \<open>reject\<close> for score 1.
\<close>

theorem triage_fallback_recommendation_counterexample:
  "map_sum id (\<lambda>r. (score r, recommendation r, calculateRecommendation (score r)))
     (parseTriageResponse JSON_parse_sample sample_now
        (js ''I cannot evaluate this entry.'') sample_content)
   = Inr (1, Review, Reject)"
  by (simp add: parseTriageResponse_def parseTriageBody_def sample_no_match
      createFallbackResult_def calculateRecommendation_def)

text \<open>
  C1 (amended): every result of \<open>parseTriageResponse\<close> has a score equal to the number
  of passed checks among its four checks. When the response parses and validates, the
  recommendation follows the recomputed score (adopt iff 4, review iff 2 or 3, reject iff
  0 or 1), whatever score or recommendation the response carried: the parsed value is
  arbitrary here and those two fields are never read. When parsing or validation fails,
  the result is the fallback, with score 1 and recommendation review.
\<close>

theorem triage_score_and_recommendation:
  "\<exists>r. parseTriageResponse P now resp content = Inr r \<and>
       score r = length (filter pass (check_values (checks r))) \<and>
       (case parseTriageBody P now resp of
          Inr _ \<Rightarrow> (recommendation r = Adopt \<longleftrightarrow> score r = 4) \<and>
                   (recommendation r = Review \<longleftrightarrow> score r = 2 \<or> score r = 3) \<and>
                   (recommendation r = Reject \<longleftrightarrow> score r = 0 \<or> score r = 1)
        | Inl _ \<Rightarrow> r = createFallbackResult now content \<and> score r = 1 \<and>
                   recommendation r = Review)"
proof (cases "parseTriageBody P now resp")
  case (Inl e)
  then show ?thesis
    using fallback_passed_checks [of now content]
    by (simp add: parseTriageResponse_def) (simp add: createFallbackResult_def)
next
  case (Inr r)
  have le: "score r \<le> 4"
    using parseTriageBody_Inr [OF Inr] passed_checks_le_4 [of "checks r"] by simp
  have "recommendation r = calculateRecommendation (score r)"
    using parseTriageBody_Inr [OF Inr] by simp
  with le have "(recommendation r = Adopt \<longleftrightarrow> score r = 4) \<and>
                (recommendation r = Review \<longleftrightarrow> score r = 2 \<or> score r = 3) \<and>
                (recommendation r = Reject \<longleftrightarrow> score r = 0 \<or> score r = 1)"
    using calculateRecommendation_iff [of "score r"] by auto
  then show ?thesis
    using Inr parseTriageBody_Inr [OF Inr] by (simp add: parseTriageResponse_def)
qed

text \<open>
  The example: all four checks pass, and the response itself claims score 0 and
  \<open>reject\<close>; the result has score 4 and recommendation adopt.
\<close>

theorem triage_score_and_recommendation_witness:
  "\<exists>r. parseTriageResponse JSON_parse_sample sample_now
          (js ''Evaluation: '' @ sample_triage_text) sample_content = Inr r \<and>
       score r = length (filter pass (check_values (checks r))) \<and>
       score r = 4 \<and> recommendation r = Adopt"
proof -
  let ?resp = "js ''Evaluation: '' @ sample_triage_text"
  obtain r where r: "parseTriageResponse JSON_parse_sample sample_now ?resp sample_content = Inr r"
      "score r = length (filter pass (check_values (checks r)))"
      "case parseTriageBody JSON_parse_sample sample_now ?resp of
          Inr _ \<Rightarrow> (recommendation r = Adopt \<longleftrightarrow> score r = 4) \<and>
                   (recommendation r = Review \<longleftrightarrow> score r = 2 \<or> score r = 3) \<and>
                   (recommendation r = Reject \<longleftrightarrow> score r = 0 \<or> score r = 1)
        | Inl _ \<Rightarrow> r = createFallbackResult sample_now sample_content \<and> score r = 1 \<and>
                   recommendation r = Review"
    using triage_score_and_recommendation [of JSON_parse_sample sample_now ?resp sample_content]
    by blast
  have body: "map_sum id score (parseTriageBody JSON_parse_sample sample_now ?resp) = Inr 4"
    apply (simp add: parseTriageBody_def sample_triage_match JSON_parse_sample_def)
    apply (simp add: sample_triage_json_def js_def validateCheckResult_def check_values_def)
    done
  then obtain r' where r': "parseTriageBody JSON_parse_sample sample_now ?resp = Inr r'" "score r' = 4"
    by (cases "parseTriageBody JSON_parse_sample sample_now ?resp") auto
  from r(1) r'(1) have "r = r'" by (simp add: parseTriageResponse_def)
  with r r' show ?thesis by auto
qed

text \<open>
  C2: \<open>parseTriageResponse\<close> returns a result for every response, content and parser
  outcome, never an error. Whenever the \<open>try\<close> block throws, and in particular when the
  response holds no JSON object substring, when JSON.parse rejects the match, or when
  \<open>checks\<close> or \<open>coreQuestion\<close> is missing or falsy, the result is the fallback:
  recommendation review, score 1, three failed checks with reason
  "Analysis failed - please review", one passed check "Assumed safe", and as core question
  the first 37 code units of the content followed by three dots.
\<close>

theorem triage_parse_falls_back:
  "(\<exists>r. parseTriageResponse P now resp content = Inr r) \<and>
   ((\<exists>e. parseTriageBody P now resp = Inl e) \<or>
    match_json_object resp = None \<or>
    (\<exists>m. match_json_object resp = Some m \<and>
       (P m = None \<or>
        (\<exists>parsed. P m = Some parsed \<and>
           (\<not> truthy (js_get_opt (Some parsed) (js ''checks'')) \<or>
            \<not> truthy (js_get_opt (Some parsed) (js ''coreQuestion''))))))
    \<longrightarrow>
    parseTriageResponse P now resp content = Inr
      \<lparr> checks =
         \<lparr> hasSpecifics = \<lparr> pass = False, reason = js ''Analysis failed - please review'' \<rparr>,
           canBeCorePhrase = \<lparr> pass = False, reason = js ''Analysis failed - please review'' \<rparr>,
           isTransferable = \<lparr> pass = False, reason = js ''Analysis failed - please review'' \<rparr>,
           isNonHarmful = \<lparr> pass = True, reason = js ''Assumed safe'' \<rparr> \<rparr>,
        score = 1, recommendation = Review,
        coreQuestion = take 37 content @ js ''...'',
        timestamp = now \<rparr>)"
proof (intro conjI impI)
  show "\<exists>r. parseTriageResponse P now resp content = Inr r"
    by (simp add: parseTriageResponse_def split: sum.split)
next
  assume "(\<exists>e. parseTriageBody P now resp = Inl e) \<or>
    match_json_object resp = None \<or>
    (\<exists>m. match_json_object resp = Some m \<and>
       (P m = None \<or>
        (\<exists>parsed. P m = Some parsed \<and>
           (\<not> truthy (js_get_opt (Some parsed) (js ''checks'')) \<or>
            \<not> truthy (js_get_opt (Some parsed) (js ''coreQuestion''))))))"
  then have "\<exists>e. parseTriageBody P now resp = Inl e"
    using parseTriageBody_fails [of resp P now] by blast
  then show "parseTriageResponse P now resp content = Inr
      \<lparr> checks =
         \<lparr> hasSpecifics = \<lparr> pass = False, reason = js ''Analysis failed - please review'' \<rparr>,
           canBeCorePhrase = \<lparr> pass = False, reason = js ''Analysis failed - please review'' \<rparr>,
           isTransferable = \<lparr> pass = False, reason = js ''Analysis failed - please review'' \<rparr>,
           isNonHarmful = \<lparr> pass = True, reason = js ''Assumed safe'' \<rparr> \<rparr>,
        score = 1, recommendation = Review,
        coreQuestion = take 37 content @ js ''...'',
        timestamp = now \<rparr>"
    by (auto simp: parseTriageResponse_def createFallbackResult_def substring0_def)
qed

theorem triage_parse_falls_back_witness:
  "parseTriageResponse JSON_parse_sample sample_now
     (js ''I cannot evaluate this entry.'') sample_content = Inr
      \<lparr> checks =
         \<lparr> hasSpecifics = \<lparr> pass = False, reason = js ''Analysis failed - please review'' \<rparr>,
           canBeCorePhrase = \<lparr> pass = False, reason = js ''Analysis failed - please review'' \<rparr>,
           isTransferable = \<lparr> pass = False, reason = js ''Analysis failed - please review'' \<rparr>,
           isNonHarmful = \<lparr> pass = True, reason = js ''Assumed safe'' \<rparr> \<rparr>,
        score = 1, recommendation = Review,
        coreQuestion = js ''I keep avoiding hard conversations at...'',
        timestamp = sample_now \<rparr>"
proof -
  have cq: "take 37 sample_content @ js ''...'' = js ''I keep avoiding hard conversations at...''"
    by (simp add: sample_content_def js_def)
  show ?thesis
    using triage_parse_falls_back
      [of JSON_parse_sample sample_now "js ''I cannot evaluate this entry.''" sample_content]
      sample_no_match cq by simp
qed

section \<open>Synthesis guide: question count and fallback\<close>

















lemma sample_marked_questions_match:
  "match_json_object sample_marked_questions_text = Some sample_marked_questions_text"
  by (simp add: match_json_object_def js_def lbrace_def rbrace_def sample_marked_questions_text_def)


section \<open>Provider adapters: attempts, backoff and the errors raised\<close>

lemma catch_block_auth:
  assumes "is_auth_failure (kind p) e"
  shows "catch_block pf p n e = Throw (new_Error (auth_message (kind p)))"
  using assms
  by (cases e; cases "kind p")
     (auto simp: catch_block_def is_auth_failure_def anthropic_catch_def openai_catch_def
        gemini_catch_def auth_message_def provider_name_def js_def)

lemma catch_block_rate_limit:
  assumes "is_rate_limit_failure (kind p) e"
  shows "catch_block pf p n e = rate_limited (kind p) n"
  using assms
  by (cases e; cases "kind p")
     (auto simp: catch_block_def is_auth_failure_def is_rate_limit_failure_def
        anthropic_catch_def openai_catch_def gemini_catch_def)

lemma catch_block_timeout:
  assumes "is_timeout_failure (kind p) e"
  shows "catch_block pf p n e = timed_out (kind p) n"
  using assms
  by (cases e; cases "kind p")
     (auto simp: catch_block_def is_auth_failure_def is_rate_limit_failure_def is_timeout_failure_def
        anthropic_catch_def openai_catch_def gemini_catch_def ollama_catch_def)

lemma catch_block_last_attempt:
  "\<exists>e'. catch_block pf p maxRetries e = Throw e'"
  by (cases e; cases "kind p")
     (auto simp: catch_block_def anthropic_catch_def openai_catch_def gemini_catch_def
        ollama_catch_def rate_limited_def timed_out_def other_error_def Let_def)

lemma retry_loop_bounds:
  assumes "1 \<le> a" "a \<le> maxRetries"
  shows "a \<le> attempts (retry_loop pf p a slept) \<and>
         attempts (retry_loop pf p a slept) \<le> maxRetries \<and>
         length (delays (retry_loop pf p a slept)) + a =
           length slept + attempts (retry_loop pf p a slept)"
  using assms
proof (induction pf p a slept rule: retry_loop.induct)
  case (1 pf p attempt slept)
  show ?case
  proof (cases "api pf attempt")
    case (Returns t)
    then show ?thesis using 1(2,3) by (simp add: retry_loop.simps [of pf p attempt])
  next
    case (Throws error)
    show ?thesis
    proof (cases "catch_block pf p attempt error")
      case (Throw e)
      then show ?thesis using Throws 1(2,3) by (simp add: retry_loop.simps [of pf p attempt])
    next
      case (SleepThenRetry d)
      have "attempt \<noteq> maxRetries"
        using SleepThenRetry catch_block_last_attempt [of pf p error] by auto
      then have lt: "attempt + 1 \<le> maxRetries" using 1(3) by simp
      have ih: "attempt + 1 \<le> attempts (retry_loop pf p (attempt + 1) (slept @ [d])) \<and>
         attempts (retry_loop pf p (attempt + 1) (slept @ [d])) \<le> maxRetries \<and>
         length (delays (retry_loop pf p (attempt + 1) (slept @ [d]))) + (attempt + 1) =
           length (slept @ [d]) + attempts (retry_loop pf p (attempt + 1) (slept @ [d]))"
        using 1(1) [OF _ Throws SleepThenRetry _ lt] 1(3) by simp
      have eq: "retry_loop pf p attempt slept = retry_loop pf p (attempt + 1) (slept @ [d])"
        using Throws SleepThenRetry 1(3) by (simp add: retry_loop.simps [of pf p attempt])
      show ?thesis using ih unfolding eq by simp
    qed
  qed
qed

lemma callAPI_bounds:
  "attempts (callAPI pf p) \<le> 3 \<and> length (delays (callAPI pf p)) \<le> 2"
proof -
  have "\<And>q. attempts (retry_loop pf q 1 []) \<le> 3 \<and> length (delays (retry_loop pf q 1 [])) \<le> 2"
    subgoal for q
      using retry_loop_bounds [of 1 pf q "[]"] by (simp add: maxRetries_def)
    done
  then show ?thesis
    by (auto simp: callAPI_def split: sum.splits)
qed

lemma catch_block_other:
  assumes "is_other_failure (kind p) e"
  shows "catch_block pf p n e = other_error (kind p) (sanitizeError pf (kind p) e) n"
  using assms
  by (cases e; cases "kind p")
     (auto simp: catch_block_def is_other_failure_def is_terminal_failure_def is_auth_failure_def
        is_rate_limit_failure_def is_timeout_failure_def
        anthropic_catch_def openai_catch_def gemini_catch_def ollama_catch_def)

lemma retry_loop_step:
  assumes "1 \<le> n" "n \<le> 3" "api pf n = Throws e"
  shows "retry_loop pf p n slept =
           (case catch_block pf p n e of
              Throw e' \<Rightarrow> \<lparr> outcome = Inl e', delays = slept, attempts = n, adapter = p \<rparr>
            | SleepThenRetry d \<Rightarrow> retry_loop pf p (n + 1) (slept @ [d]))"
  using assms by (simp add: retry_loop.simps [of pf p n] maxRetries_def)

lemma retry_loop_retry:
  assumes "1 \<le> n" "n \<le> 3" "api pf n = Throws e" "catch_block pf p n e = SleepThenRetry d"
    "m = n + 1"
  shows "retry_loop pf p n slept = retry_loop pf p m (slept @ [d])"
  using assms retry_loop_step [of n pf e p slept] by simp

lemma retry_loop_returns:
  assumes "n \<le> 3" "api pf n = Returns v"
  shows "retry_loop pf p n slept = \<lparr> outcome = Inr v, delays = slept, attempts = n, adapter = p \<rparr>"
  using assms by (simp add: retry_loop.simps [of pf p n] maxRetries_def)

lemma initialize_kind: "initialize pf p = Inr p' \<Longrightarrow> kind p' = kind p \<and> ready p'"
  by (auto simp: initialize_def split: if_splits option.splits)

lemma str_includes_self_append: "str_includes (ys @ zs) ys"
proof (cases "ys @ zs")
  case Nil
  then show ?thesis by simp
next
  case (Cons a l)
  have "startsWith (ys @ zs) ys" by (simp add: startsWith_def)
  then show ?thesis by (metis Cons str_includes.simps(2))
qed

lemma str_includes_infix: "str_includes (xs @ ys @ zs) ys"
  by (induction xs) (auto simp: str_includes_self_append)

lemma rate_limit_sequence:
  assumes "api pf 1 = Throws e1" "is_rate_limit_failure (kind q) e1"
    "api pf 2 = Throws e2" "is_rate_limit_failure (kind q) e2" "api pf 3 = Returns v"
  shows "retry_loop pf q 1 [] =
           \<lparr> outcome = Inr v,
             delays = [baseDelay (kind q) * 2 ^ 1 * 2, baseDelay (kind q) * 2 ^ 2 * 2],
             attempts = 3, adapter = q \<rparr>"
proof -
  let ?d1 = "baseDelay (kind q) * 2 ^ 1 * 2" and ?d2 = "baseDelay (kind q) * 2 ^ 2 * 2"
  have c1: "catch_block pf q 1 e1 = SleepThenRetry ?d1"
    using assms(2) by (simp add: catch_block_rate_limit rate_limited_def maxRetries_def)
  have c2: "catch_block pf q 2 e2 = SleepThenRetry ?d2"
    using assms(4) by (simp add: catch_block_rate_limit rate_limited_def maxRetries_def)
  have "retry_loop pf q 1 [] = retry_loop pf q 2 ([] @ [?d1])"
    by (rule retry_loop_retry [where e = e1, OF _ _ assms(1) c1]) simp_all
  also have "\<dots> = retry_loop pf q 3 ([?d1] @ [?d2])"
    unfolding append_Nil
    by (rule retry_loop_retry [where e = e2, OF _ _ assms(3) c2]) simp_all
  also have "\<dots> = \<lparr> outcome = Inr v,
             delays = [baseDelay (kind q) * 2 ^ 1 * 2, baseDelay (kind q) * 2 ^ 2 * 2],
             attempts = 3, adapter = q \<rparr>"
    using retry_loop_returns [of 3 pf v q] assms(5) by simp
  finally show ?thesis .
qed

text \<open>
  C4 (amended): each of the four adapters makes at most 3 attempts per call. A timeout
  failure before the last attempt is retried after \<open>base * 2^(attempt-1)\<close>. For the
  Anthropic, OpenAI and Gemini adapters: an auth failure ends the call at once with the
  "check your key" error, without a further attempt or delay; a rate-limit failure before
  the last attempt is retried after \<open>base * 2^attempt * 2\<close>; an initialised adapter
  whose first attempt fails with an auth failure ends after 1 attempt and no delay; and
  the injected sequence rate-limit, rate-limit, success yields the success value after
  3 attempts and exactly the two delays \<open>base * 2^1 * 2\<close> and \<open>base * 2^2 * 2\<close>, 4000
  and 8000 ms. (The Ollama adapter has no auth and no rate-limit class.)
\<close>

theorem callAPI_retry_and_backoff:
  "attempts (callAPI pf p) \<le> 3 \<and>
   (1 \<le> n \<and> n < 3 \<and> api pf n = Throws e \<and> is_timeout_failure (kind p) e \<longrightarrow>
      retry_loop pf p n slept =
        retry_loop pf p (n + 1) (slept @ [baseDelay (kind p) * 2 ^ (n - 1)])) \<and>
   (kind p \<noteq> Ollama \<longrightarrow>
      (1 \<le> n \<and> n \<le> 3 \<and> api pf n = Throws e \<and> is_auth_failure (kind p) e \<longrightarrow>
         retry_loop pf p n slept =
           \<lparr> outcome = Inl (new_Error (auth_message (kind p))), delays = slept,
             attempts = n, adapter = p \<rparr>) \<and>
      (1 \<le> n \<and> n < 3 \<and> api pf n = Throws e \<and> is_rate_limit_failure (kind p) e \<longrightarrow>
         retry_loop pf p n slept =
           retry_loop pf p (n + 1) (slept @ [baseDelay (kind p) * 2 ^ n * 2])) \<and>
      (ensure_initialized pf p = Some q \<and> api pf 1 = Throws e \<and> is_auth_failure (kind p) e \<longrightarrow>
         callAPI pf p =
           \<lparr> outcome = Inl (new_Error (auth_message (kind p))), delays = [],
             attempts = 1, adapter = q \<rparr>) \<and>
      (ensure_initialized pf p = Some q \<and>
       api pf 1 = Throws e1 \<and> is_rate_limit_failure (kind p) e1 \<and>
       api pf 2 = Throws e2 \<and> is_rate_limit_failure (kind p) e2 \<and>
       api pf 3 = Returns v \<longrightarrow>
         callAPI pf p =
           \<lparr> outcome = Inr v,
             delays = [baseDelay (kind p) * 2 ^ 1 * 2, baseDelay (kind p) * 2 ^ 2 * 2],
             attempts = 3, adapter = q \<rparr> \<and>
         delays (callAPI pf p) = [4000, 8000]))"
proof -
  have init: "callAPI pf p = retry_loop pf q 1 [] \<and> kind q = kind p" if "ensure_initialized pf p = Some q" for q
    using that initialize_kind [of pf p q]
    by (auto simp: ensure_initialized_def callAPI_def split: if_splits sum.splits)
  have a: "attempts (callAPI pf p) \<le> 3"
    using callAPI_bounds [of pf p] by simp
  have b: "1 \<le> n \<and> n < 3 \<and> api pf n = Throws e \<and> is_timeout_failure (kind p) e \<longrightarrow>
      retry_loop pf p n slept =
        retry_loop pf p (n + 1) (slept @ [baseDelay (kind p) * 2 ^ (n - 1)])"
    using retry_loop_step [of n pf e p slept]
    by (auto simp: catch_block_timeout timed_out_def maxRetries_def)
  have c: "1 \<le> n \<and> n \<le> 3 \<and> api pf n = Throws e \<and> is_auth_failure (kind p) e \<longrightarrow>
         retry_loop pf p n slept =
           \<lparr> outcome = Inl (new_Error (auth_message (kind p))), delays = slept,
             attempts = n, adapter = p \<rparr>"
    using retry_loop_step [of n pf e p slept]
    by (auto simp: catch_block_auth)
  have d: "1 \<le> n \<and> n < 3 \<and> api pf n = Throws e \<and> is_rate_limit_failure (kind p) e \<longrightarrow>
         retry_loop pf p n slept =
           retry_loop pf p (n + 1) (slept @ [baseDelay (kind p) * 2 ^ n * 2])"
    using retry_loop_step [of n pf e p slept]
    by (auto simp: catch_block_rate_limit rate_limited_def maxRetries_def)
  have e: "ensure_initialized pf p = Some q \<and> api pf 1 = Throws e \<and> is_auth_failure (kind p) e \<longrightarrow>
         callAPI pf p =
           \<lparr> outcome = Inl (new_Error (auth_message (kind p))), delays = [],
             attempts = 1, adapter = q \<rparr>"
    using init [of q] retry_loop_step [of 1 pf e q "[]"]
    by (auto simp: catch_block_auth)
  have f: "kind p \<noteq> Ollama \<longrightarrow> ensure_initialized pf p = Some q \<and>
       api pf 1 = Throws e1 \<and> is_rate_limit_failure (kind p) e1 \<and>
       api pf 2 = Throws e2 \<and> is_rate_limit_failure (kind p) e2 \<and>
       api pf 3 = Returns v \<longrightarrow>
         callAPI pf p =
           \<lparr> outcome = Inr v,
             delays = [baseDelay (kind p) * 2 ^ 1 * 2, baseDelay (kind p) * 2 ^ 2 * 2],
             attempts = 3, adapter = q \<rparr> \<and>
         delays (callAPI pf p) = [4000, 8000]"
    using init [of q] rate_limit_sequence [of pf e1 q e2 v]
    by (auto simp: baseDelay_def)
  from a b c d e f show ?thesis by blast
qed

text \<open>
  C4 as stated fails for the Ollama adapter, which tests for no rate-limit class: it
  retries the injected sequence of two HTTP 429 failures and a success after 2000 and
  4000 ms, the standard backoff, where the doubled formula gives 8000 and 16000 ms.
\<close>

theorem ollama_rate_limit_backoff_counterexample:
  "callAPI (sample_platform [Throws sample_ollama_429, Throws sample_ollama_429, Returns (js ''ok'')])
     sample_ollama_adapter
   = \<lparr> outcome = Inr (js ''ok''), delays = [2000, 4000], attempts = 3,
       adapter = sample_ollama_adapter \<lparr> ready := True \<rparr> \<rparr> \<and>
   [baseDelay Ollama * 2 ^ 1 * 2, baseDelay Ollama * 2 ^ 2 * 2] = [8000, 16000] \<and>
   delays (callAPI (sample_platform [Throws sample_ollama_429, Throws sample_ollama_429,
                                     Returns (js ''ok'')]) sample_ollama_adapter)
     \<noteq> [baseDelay Ollama * 2 ^ 1 * 2, baseDelay Ollama * 2 ^ 2 * 2]"
  by code_simp

theorem callAPI_retry_and_backoff_witness:
  "callAPI (sample_platform [Throws sample_rate_limit_error, Throws sample_rate_limit_error,
                             Returns (js ''ok'')]) (sample_cloud_adapter Anthropic)
     = \<lparr> outcome = Inr (js ''ok''), delays = [4000, 8000], attempts = 3,
         adapter = sample_cloud_adapter Anthropic \<rparr> \<and>
   callAPI (sample_platform [Throws sample_auth_error]) (sample_cloud_adapter OpenAI)
     = \<lparr> outcome = Inl (new_Error (js ''Invalid API key. Please check your OpenAI API key in settings.'')),
         delays = [], attempts = 1, adapter = sample_cloud_adapter OpenAI \<rparr> \<and>
   retry_loop (sample_platform [Throws sample_timeout_error, Returns (js ''ok'')])
       (sample_cloud_adapter Gemini) 1 []
     = retry_loop (sample_platform [Throws sample_timeout_error, Returns (js ''ok'')])
         (sample_cloud_adapter Gemini) 2 [1000]"
proof (intro conjI)
  let ?pf = "sample_platform [Throws sample_rate_limit_error, Throws sample_rate_limit_error,
                             Returns (js ''ok'')]"
  let ?p = "sample_cloud_adapter Anthropic"
  have h: "kind ?p \<noteq> Ollama" "ensure_initialized ?pf ?p = Some ?p"
    "api ?pf 1 = Throws sample_rate_limit_error" "api ?pf 2 = Throws sample_rate_limit_error"
    "api ?pf 3 = Returns (js ''ok'')" "is_rate_limit_failure (kind ?p) sample_rate_limit_error"
    "baseDelay (kind ?p) = 1000"
    by code_simp+
  show "callAPI ?pf ?p = \<lparr> outcome = Inr (js ''ok''), delays = [4000, 8000], attempts = 3,
         adapter = ?p \<rparr>"
    using callAPI_retry_and_backoff [of ?pf ?p _ _ _ ?p sample_rate_limit_error sample_rate_limit_error "js ''ok''"] h
    by simp
next
  let ?pf = "sample_platform [Throws sample_auth_error]"
  let ?p = "sample_cloud_adapter OpenAI"
  have h: "kind ?p \<noteq> Ollama" "ensure_initialized ?pf ?p = Some ?p"
    "api ?pf 1 = Throws sample_auth_error" "is_auth_failure (kind ?p) sample_auth_error"
    "auth_message (kind ?p) = js ''Invalid API key. Please check your OpenAI API key in settings.''"
    by code_simp+
  show "callAPI ?pf ?p = \<lparr> outcome = Inl (new_Error (js ''Invalid API key. Please check your OpenAI API key in settings.'')),
         delays = [], attempts = 1, adapter = ?p \<rparr>"
    using callAPI_retry_and_backoff [of ?pf ?p _ sample_auth_error _ ?p] h
    by simp
next
  let ?pf = "sample_platform [Throws sample_timeout_error, Returns (js ''ok'')]"
  let ?p = "sample_cloud_adapter Gemini"
  have h: "api ?pf 1 = Throws sample_timeout_error" "is_timeout_failure (kind ?p) sample_timeout_error"
    "baseDelay (kind ?p) = 1000"
    by code_simp+
  show "retry_loop ?pf ?p 1 [] = retry_loop ?pf ?p 2 [1000]"
    using callAPI_retry_and_backoff [of ?pf ?p 1 sample_timeout_error "[]"] h
    by (simp add: numeral_2_eq_2)
qed

text \<open>
  C8 as stated fails for retries exhausted by rate-limit failures: the error raised is
  "Rate limit exceeded. Please try again later.", which does not name the 3 attempts.
\<close>

theorem rate_limit_exhaustion_message_counterexample:
  "callAPI (sample_platform [Throws sample_rate_limit_error, Throws sample_rate_limit_error,
                             Throws sample_rate_limit_error]) (sample_cloud_adapter Anthropic)
     = \<lparr> outcome = Inl (new_Error (js ''Rate limit exceeded. Please try again later.'')),
         delays = [4000, 8000], attempts = 3, adapter = sample_cloud_adapter Anthropic \<rparr> \<and>
   str_includes (js ''Rate limit exceeded. Please try again later.'') (decimal 3) = False"
  by code_simp

text \<open>
  C8 (amended): when the third attempt of an adapter fails with a failure of the
  other/network class, the error raised is "API call failed after 3 attempts: " followed
  by the sanitized message, and so names the number of attempts made. When it fails with
  a rate-limit or a timeout failure, the error raised is a fixed message ("Rate limit
  exceeded. Please try again later.", "API request timed out. Please check your
  connection and try again.", for Ollama "Request timed out. Your local model may be too
  slow or overloaded."), none of which names the attempt count.
\<close>

theorem exhausted_retries_error_message:
  "(api pf 3 = Throws e \<and> is_other_failure (kind p) e \<longrightarrow>
      retry_loop pf p 3 slept =
        \<lparr> outcome = Inl (new_Error (js ''API call failed after '' @ decimal 3 @
                                      js '' attempts: '' @ sanitizeError pf (kind p) e)),
          delays = slept, attempts = 3, adapter = p \<rparr> \<and>
      str_includes (js ''API call failed after '' @ decimal 3 @ js '' attempts: '' @
                      sanitizeError pf (kind p) e)
        (decimal (attempts (retry_loop pf p 3 slept)))) \<and>
   (api pf 3 = Throws e \<and> is_rate_limit_failure (kind p) e \<longrightarrow>
      retry_loop pf p 3 slept =
        \<lparr> outcome = Inl (new_Error (js ''Rate limit exceeded. Please try again later.'')),
          delays = slept, attempts = 3, adapter = p \<rparr>) \<and>
   (api pf 3 = Throws e \<and> is_timeout_failure (kind p) e \<longrightarrow>
      retry_loop pf p 3 slept =
        \<lparr> outcome = Inl (new_Error (if kind p = Ollama
             then js ''Request timed out. Your local model may be too slow or overloaded.''
             else js ''API request timed out. Please check your connection and try again.'')),
          delays = slept, attempts = 3, adapter = p \<rparr>) \<and>
   str_includes (js ''Rate limit exceeded. Please try again later.'') (decimal 3) = False \<and>
   str_includes (js ''Request timed out. Your local model may be too slow or overloaded.'')
     (decimal 3) = False \<and>
   str_includes (js ''API request timed out. Please check your connection and try again.'')
     (decimal 3) = False"
proof -
  have a: "api pf 3 = Throws e \<and> is_other_failure (kind p) e \<longrightarrow>
      retry_loop pf p 3 slept =
        \<lparr> outcome = Inl (new_Error (js ''API call failed after '' @ decimal 3 @
                                      js '' attempts: '' @ sanitizeError pf (kind p) e)),
          delays = slept, attempts = 3, adapter = p \<rparr>"
    using retry_loop_step [of 3 pf e p slept]
    by (auto simp: catch_block_other other_error_def maxRetries_def)
  have a': "str_includes (js ''API call failed after '' @ decimal 3 @ js '' attempts: '' @
                      sanitizeError pf (kind p) e) (decimal 3)"
    by (rule str_includes_infix)
  have b: "api pf 3 = Throws e \<and> is_rate_limit_failure (kind p) e \<longrightarrow>
      retry_loop pf p 3 slept =
        \<lparr> outcome = Inl (new_Error (js ''Rate limit exceeded. Please try again later.'')),
          delays = slept, attempts = 3, adapter = p \<rparr>"
    using retry_loop_step [of 3 pf e p slept]
    by (auto simp: catch_block_rate_limit rate_limited_def maxRetries_def)
  have c: "api pf 3 = Throws e \<and> is_timeout_failure (kind p) e \<longrightarrow>
      retry_loop pf p 3 slept =
        \<lparr> outcome = Inl (new_Error (if kind p = Ollama
             then js ''Request timed out. Your local model may be too slow or overloaded.''
             else js ''API request timed out. Please check your connection and try again.'')),
          delays = slept, attempts = 3, adapter = p \<rparr>"
    using retry_loop_step [of 3 pf e p slept]
    by (auto simp: catch_block_timeout timed_out_def maxRetries_def)
  have d: "str_includes (js ''Rate limit exceeded. Please try again later.'') (decimal 3) = False"
    "str_includes (js ''Request timed out. Your local model may be too slow or overloaded.'')
     (decimal 3) = False"
    "str_includes (js ''API request timed out. Please check your connection and try again.'')
     (decimal 3) = False"
    by code_simp+
  show ?thesis using a a' b c d by simp
qed

theorem exhausted_retries_error_message_witness:
  "retry_loop (sample_platform [Throws sample_network_error, Throws sample_network_error,
                                Throws sample_network_error]) (sample_cloud_adapter Anthropic) 3 [1000, 2000]
     = \<lparr> outcome = Inl (new_Error (js ''API call failed after 3 attempts: socket hang up'')),
         delays = [1000, 2000], attempts = 3, adapter = sample_cloud_adapter Anthropic \<rparr> \<and>
   str_includes (js ''API call failed after 3 attempts: socket hang up'') (js ''3'')"
proof -
  let ?pf = "sample_platform [Throws sample_network_error, Throws sample_network_error,
                                Throws sample_network_error]"
  let ?p = "sample_cloud_adapter Anthropic"
  have h: "api ?pf 3 = Throws sample_network_error"
    "is_other_failure (kind ?p) sample_network_error"
    by code_simp+
  have m: "js ''API call failed after '' @ decimal 3 @ js '' attempts: '' @
             sanitizeError ?pf (kind ?p) sample_network_error
           = js ''API call failed after 3 attempts: socket hang up''"
    "decimal 3 = js ''3''"
    by code_simp+
  show ?thesis
    using exhausted_retries_error_message [of ?pf sample_network_error ?p "[1000, 2000]"] h m by auto
qed

section \<open>Client facade: construction and delegation\<close>

lemma tags_distinct:
  "js ''anthropic'' \<noteq> js ''openai''" "js ''anthropic'' \<noteq> js ''gemini''"
  "js ''anthropic'' \<noteq> js ''ollama''" "js ''openai'' \<noteq> js ''gemini''"
  "js ''openai'' \<noteq> js ''ollama''" "js ''gemini'' \<noteq> js ''ollama''"
  by (simp_all add: js_def)

lemma createFromConfig_known:
  assumes "lc tag = provider_tag k"
  shows "createFromConfig lc tag cfg =
           (case required_credential k cfg of
              Some cred \<Rightarrow> Inr \<lparr> client_provider = new_provider k cred (config_model cfg) \<rparr>
            | None \<Rightarrow> Inl (new_Error (provider_name k @
                 (if k = Ollama then js '' provider requires endpoint''
                  else js '' provider requires API key''))))"
proof (cases k)
  case Anthropic
  have m: "js ''Anthropic'' @ js '' provider requires API key'' = js ''Anthropic provider requires API key''"
    by (simp add: js_def)
  show ?thesis using assms Anthropic m
    by (simp add: createFromConfig_def required_credential_def provider_tag_def provider_name_def
        split: option.splits)
next
  case OpenAI
  have m: "js ''OpenAI'' @ js '' provider requires API key'' = js ''OpenAI provider requires API key''"
    by (simp add: js_def)
  show ?thesis using assms OpenAI m tags_distinct
    by (simp add: createFromConfig_def required_credential_def provider_tag_def provider_name_def
        split: option.splits)
next
  case Gemini
  have m: "js ''Gemini'' @ js '' provider requires API key'' = js ''Gemini provider requires API key''"
    by (simp add: js_def)
  show ?thesis using assms Gemini m tags_distinct
    by (simp add: createFromConfig_def required_credential_def provider_tag_def provider_name_def
        split: option.splits)
next
  case Ollama
  have m: "js ''Ollama'' @ js '' provider requires endpoint'' = js ''Ollama provider requires endpoint''"
    by (simp add: js_def)
  show ?thesis using assms Ollama m tags_distinct
    by (simp add: createFromConfig_def required_credential_def provider_tag_def provider_name_def
        split: option.splits)
qed

lemma createFromConfig_unknown:
  assumes "lc tag \<noteq> js ''anthropic''" "lc tag \<noteq> js ''openai''"
    "lc tag \<noteq> js ''gemini''" "lc tag \<noteq> js ''ollama''"
  shows "createFromConfig lc tag cfg = Inl (new_Error (js ''Unknown provider type: '' @ tag))"
  using assms by (simp add: createFromConfig_def)

lemma createFromConfig_Inr:
  assumes "createFromConfig lc tag cfg = Inr c"
  shows "lc tag = provider_tag (kind (client_provider c))"
proof -
  have "\<exists>k. lc tag = provider_tag k"
  proof (rule ccontr)
    assume n: "\<not> (\<exists>k. lc tag = provider_tag k)"
    have "lc tag \<noteq> js ''anthropic''" "lc tag \<noteq> js ''openai''"
      "lc tag \<noteq> js ''gemini''" "lc tag \<noteq> js ''ollama''"
      using n spec [of "\<lambda>k. lc tag \<noteq> provider_tag k" Anthropic]
        spec [of "\<lambda>k. lc tag \<noteq> provider_tag k" OpenAI]
        spec [of "\<lambda>k. lc tag \<noteq> provider_tag k" Gemini]
        spec [of "\<lambda>k. lc tag \<noteq> provider_tag k" Ollama]
      by (simp_all add: provider_tag_def)
    then show False
      using createFromConfig_unknown [of lc tag cfg] assms by simp
  qed
  then obtain k where k: "lc tag = provider_tag k" ..
  have "kind (client_provider c) = k"
    using createFromConfig_known [of lc tag k cfg] k assms
    by (cases "required_credential k cfg") (auto simp: new_provider_def)
  with k show ?thesis by simp
qed

lemma required_credential_nonempty: "required_credential k cfg = Some cred \<Longrightarrow> cred \<noteq> []"
  by (auto simp: required_credential_def split: option.splits if_splits)

lemma new_provider_fields:
  assumes "cred \<noteq> []"
  shows "new_provider k cred m =
           \<lparr> kind = k,
             credential = (if k = Ollama \<and> last cred = 0x2F then butlast cred else cred),
             model = m, ready = False \<rparr>"
  using assms by (simp add: new_provider_def remove_trailing_slash_def)

lemma initialize_model: "initialize pf p = Inr p' \<Longrightarrow> model p' = model p"
  by (auto simp: initialize_def split: if_splits option.splits)

lemma initialize_kind_ready: "initialize pf p = Inr p' \<Longrightarrow> kind p' = kind p \<and> ready p'"
  by (auto simp: initialize_def split: if_splits option.splits)

lemma createFromConfig_Inr_fields:
  assumes "createFromConfig lc tag cfg = Inr c"
  shows "model (client_provider c) = config_model cfg \<and> \<not> ready (client_provider c)"
proof -
  define k where "k = kind (client_provider c)"
  have t: "lc tag = provider_tag k"
    using createFromConfig_Inr [OF assms] by (simp add: k_def)
  have "\<exists>cred. c = \<lparr> client_provider = new_provider k cred (config_model cfg) \<rparr>"
    using createFromConfig_known [of lc tag k cfg] t assms
    by (cases "required_credential k cfg") auto
  then obtain cred where "c = \<lparr> client_provider = new_provider k cred (config_model cfg) \<rparr>" ..
  then show ?thesis by (simp add: new_provider_def)
qed

text \<open>
  C7: \<open>createFromConfig\<close> compares the lower-cased provider type with the four tags.
  For a tag with its credential in the configuration (the API key for anthropic, openai
  and gemini, the endpoint for ollama; present and not the empty string), it returns a
  client whose adapter is of the tag's kind, not yet initialized, holding the configured
  model and the credential as given, except that the Ollama adapter drops one trailing
  slash of its endpoint. For a tag without its credential it throws the "requires" error
  of that provider, and for every other provider type it throws "Unknown provider type".
  For every client it returns: the adapter's tag is the lower-cased provider type;
  \<open>getModel\<close> gives the configured model and \<open>isInitialized\<close> is false; \<open>callAPI\<close> makes
  at most three attempts, whatever the adapter; after an \<open>initialize\<close> that returns, the
  client is initialized and has the same kind of adapter and the same model. \<open>getModel\<close>
  after \<open>setModel\<close> gives the model that was set, and \<open>setModel\<close> keeps the adapter's
  kind. Each of the facade's methods is the same method of the adapter it holds, with no
  test of the adapter's kind.
\<close>

theorem createFromConfig_dispatch_and_delegation:
  "(lc tag = provider_tag k \<and> required_credential k cfg = Some cred \<longrightarrow>
      createFromConfig lc tag cfg =
        Inr \<lparr> client_provider =
              \<lparr> kind = k,
                 credential = (if k = Ollama \<and> last cred = 0x2F then butlast cred else cred),
                 model = config_model cfg, ready = False \<rparr> \<rparr>) \<and>
   (lc tag = provider_tag k \<and> required_credential k cfg = None \<longrightarrow>
      createFromConfig lc tag cfg =
        Inl (new_Error (provider_name k @
               (if k = Ollama then js '' provider requires endpoint''
                else js '' provider requires API key'')))) \<and>
   (lc tag \<notin> {js ''anthropic'', js ''openai'', js ''gemini'', js ''ollama''} \<longrightarrow>
      createFromConfig lc tag cfg = Inl (new_Error (js ''Unknown provider type: '' @ tag))) \<and>
   (createFromConfig lc tag cfg = Inr c \<longrightarrow>
      lc tag = provider_tag (kind (client_provider c)) \<and>
      LLMClient_getModel c = config_model cfg \<and>
      \<not> LLMClient_isInitialized c \<and>
      attempts (LLMClient_callAPI pf c) \<le> 3 \<and>
      (\<forall>c'. LLMClient_initialize pf c = Inr c' \<longrightarrow>
            LLMClient_isInitialized c' \<and>
            kind (client_provider c') = kind (client_provider c) \<and>
            LLMClient_getModel c' = config_model cfg)) \<and>
   LLMClient_getModel (LLMClient_setModel c m) = m \<and>
   kind (client_provider (LLMClient_setModel c m)) = kind (client_provider c) \<and>
   LLMClient_initialize pf c =
     (case initialize pf (client_provider c) of
        Inl e \<Rightarrow> Inl e | Inr p \<Rightarrow> Inr (c\<lparr>client_provider := p\<rparr>)) \<and>
   LLMClient_callAPI pf c = callAPI pf (client_provider c) \<and>
   LLMClient_testConnection pf c = adapter_testConnection pf (client_provider c) \<and>
   LLMClient_getAvailableModels pf c = adapter_getAvailableModels pf (client_provider c) \<and>
   LLMClient_getModel c = getModel (client_provider c) \<and>
   LLMClient_setModel c m = c\<lparr>client_provider := setModel (client_provider c) m\<rparr> \<and>
   LLMClient_isInitialized c = isInitialized (client_provider c)"
proof -
  have a: "lc tag = provider_tag k \<and> required_credential k cfg = Some cred \<longrightarrow>
      createFromConfig lc tag cfg =
        Inr \<lparr> client_provider =
              \<lparr> kind = k,
                 credential = (if k = Ollama \<and> last cred = 0x2F then butlast cred else cred),
                 model = config_model cfg, ready = False \<rparr> \<rparr>"
    using new_provider_fields [of cred k "config_model cfg"] required_credential_nonempty [of k cfg cred]
    by (auto simp: createFromConfig_known)
  have b: "lc tag = provider_tag k \<and> required_credential k cfg = None \<longrightarrow>
      createFromConfig lc tag cfg =
        Inl (new_Error (provider_name k @
               (if k = Ollama then js '' provider requires endpoint''
                else js '' provider requires API key'')))"
    by (auto simp: createFromConfig_known)
  have c: "lc tag \<notin> {js ''anthropic'', js ''openai'', js ''gemini'', js ''ollama''} \<longrightarrow>
      createFromConfig lc tag cfg = Inl (new_Error (js ''Unknown provider type: '' @ tag))"
    using createFromConfig_unknown [of lc tag cfg] by simp
  have e: "LLMClient_initialize pf c =
     (case initialize pf (client_provider c) of
        Inl e \<Rightarrow> Inl e | Inr p \<Rightarrow> Inr (c\<lparr>client_provider := p\<rparr>))"
    "LLMClient_callAPI pf c = callAPI pf (client_provider c)"
    "LLMClient_testConnection pf c = adapter_testConnection pf (client_provider c)"
    "LLMClient_getAvailableModels pf c = adapter_getAvailableModels pf (client_provider c)"
    "LLMClient_getModel c = getModel (client_provider c)"
    "LLMClient_setModel c m = c\<lparr>client_provider := setModel (client_provider c) m\<rparr>"
    "LLMClient_isInitialized c = isInitialized (client_provider c)"
    by (simp_all add: LLMClient_initialize_def LLMClient_callAPI_def LLMClient_testConnection_def
        LLMClient_getAvailableModels_def LLMClient_getModel_def LLMClient_setModel_def
        LLMClient_isInitialized_def)
  have s: "LLMClient_getModel (LLMClient_setModel c m) = m"
    "kind (client_provider (LLMClient_setModel c m)) = kind (client_provider c)"
    by (simp_all add: LLMClient_getModel_def LLMClient_setModel_def getModel_def setModel_def)
  have d: "createFromConfig lc tag cfg = Inr c \<longrightarrow>
      lc tag = provider_tag (kind (client_provider c)) \<and>
      LLMClient_getModel c = config_model cfg \<and>
      \<not> LLMClient_isInitialized c \<and>
      attempts (LLMClient_callAPI pf c) \<le> 3 \<and>
      (\<forall>c'. LLMClient_initialize pf c = Inr c' \<longrightarrow>
            LLMClient_isInitialized c' \<and>
            kind (client_provider c') = kind (client_provider c) \<and>
            LLMClient_getModel c' = config_model cfg)"
  proof
    assume r: "createFromConfig lc tag cfg = Inr c"
    have f: "model (client_provider c) = config_model cfg" "\<not> ready (client_provider c)"
      using createFromConfig_Inr_fields [OF r] by simp_all
    have i: "\<forall>c'. LLMClient_initialize pf c = Inr c' \<longrightarrow>
            LLMClient_isInitialized c' \<and>
            kind (client_provider c') = kind (client_provider c) \<and>
            LLMClient_getModel c' = config_model cfg"
    proof (intro allI impI)
      fix c' assume "LLMClient_initialize pf c = Inr c'"
      then obtain p where p: "initialize pf (client_provider c) = Inr p" "c' = c\<lparr>client_provider := p\<rparr>"
        by (auto simp: LLMClient_initialize_def split: sum.splits)
      show "LLMClient_isInitialized c' \<and>
            kind (client_provider c') = kind (client_provider c) \<and>
            LLMClient_getModel c' = config_model cfg"
        using p initialize_kind_ready [OF p(1)] initialize_model [OF p(1)] f
        by (simp add: LLMClient_isInitialized_def isInitialized_def LLMClient_getModel_def getModel_def)
    qed
    show "lc tag = provider_tag (kind (client_provider c)) \<and>
      LLMClient_getModel c = config_model cfg \<and>
      \<not> LLMClient_isInitialized c \<and>
      attempts (LLMClient_callAPI pf c) \<le> 3 \<and>
      (\<forall>c'. LLMClient_initialize pf c = Inr c' \<longrightarrow>
            LLMClient_isInitialized c' \<and>
            kind (client_provider c') = kind (client_provider c) \<and>
            LLMClient_getModel c' = config_model cfg)"
      using createFromConfig_Inr [OF r] f i callAPI_bounds [of pf "client_provider c"]
      by (simp add: LLMClient_getModel_def getModel_def LLMClient_isInitialized_def isInitialized_def
          LLMClient_callAPI_def)
  qed
  from a b c d s e show ?thesis by (intro conjI)
qed

theorem createFromConfig_dispatch_and_delegation_witness:
  "createFromConfig toLowerCase_ascii (js ''OpenAI'') sample_openai_config =
     Inr \<lparr> client_provider =
           \<lparr> kind = OpenAI, credential = js ''test-key'', model = js ''gpt-4o'',
             ready = False \<rparr> \<rparr> \<and>
   createFromConfig toLowerCase_ascii (js ''OLLAMA'') sample_ollama_config =
     Inr \<lparr> client_provider =
           \<lparr> kind = Ollama, credential = js ''http://localhost:11434'', model = js ''llama2'',
             ready = False \<rparr> \<rparr> \<and>
   createFromConfig toLowerCase_ascii (js ''Ollama'') sample_empty_config =
     Inl (new_Error (js ''Ollama provider requires endpoint'')) \<and>
   createFromConfig toLowerCase_ascii (js ''llama.cpp'') sample_openai_config =
     Inl (new_Error (js ''Unknown provider type: llama.cpp''))"
proof (intro conjI)
  have h: "toLowerCase_ascii (js ''OpenAI'') = provider_tag OpenAI"
    "required_credential OpenAI sample_openai_config = Some (js ''test-key'')"
    "config_model sample_openai_config = js ''gpt-4o''"
    by code_simp+
  show "createFromConfig toLowerCase_ascii (js ''OpenAI'') sample_openai_config =
     Inr \<lparr> client_provider =
           \<lparr> kind = OpenAI, credential = js ''test-key'', model = js ''gpt-4o'',
             ready = False \<rparr> \<rparr>"
    using createFromConfig_dispatch_and_delegation
      [of toLowerCase_ascii "js ''OpenAI''" OpenAI sample_openai_config "js ''test-key''",
        THEN conjunct1] h
    by simp
next
  have h: "toLowerCase_ascii (js ''OLLAMA'') = provider_tag Ollama"
    "required_credential Ollama sample_ollama_config = Some (js ''http://localhost:11434/'')"
    "config_model sample_ollama_config = js ''llama2''"
    "last (js ''http://localhost:11434/'') = 0x2F"
    "butlast (js ''http://localhost:11434/'') = js ''http://localhost:11434''"
    by code_simp+
  show "createFromConfig toLowerCase_ascii (js ''OLLAMA'') sample_ollama_config =
     Inr \<lparr> client_provider =
           \<lparr> kind = Ollama, credential = js ''http://localhost:11434'', model = js ''llama2'',
             ready = False \<rparr> \<rparr>"
    using createFromConfig_dispatch_and_delegation
      [of toLowerCase_ascii "js ''OLLAMA''" Ollama sample_ollama_config
          "js ''http://localhost:11434/''", THEN conjunct1] h
    by simp
next
  have h: "toLowerCase_ascii (js ''Ollama'') = provider_tag Ollama"
    "required_credential Ollama sample_empty_config = None"
    "provider_name Ollama @ js '' provider requires endpoint'' = js ''Ollama provider requires endpoint''"
    by code_simp+
  show "createFromConfig toLowerCase_ascii (js ''Ollama'') sample_empty_config =
     Inl (new_Error (js ''Ollama provider requires endpoint''))"
    using createFromConfig_dispatch_and_delegation
      [of toLowerCase_ascii "js ''Ollama''" Ollama sample_empty_config,
        THEN conjunct2, THEN conjunct1] h
    by simp
next
  have h: "toLowerCase_ascii (js ''llama.cpp'') \<noteq> js ''anthropic''"
    "toLowerCase_ascii (js ''llama.cpp'') \<noteq> js ''openai''"
    "toLowerCase_ascii (js ''llama.cpp'') \<noteq> js ''gemini''"
    "toLowerCase_ascii (js ''llama.cpp'') \<noteq> js ''ollama''"
    "js ''Unknown provider type: '' @ js ''llama.cpp'' = js ''Unknown provider type: llama.cpp''"
    by code_simp+
  show "createFromConfig toLowerCase_ascii (js ''llama.cpp'') sample_openai_config =
     Inl (new_Error (js ''Unknown provider type: llama.cpp''))"
    using createFromConfig_dispatch_and_delegation
      [of toLowerCase_ascii "js ''llama.cpp''" _ sample_openai_config,
        THEN conjunct2, THEN conjunct2, THEN conjunct1] h
    by simp
qed

section \<open>Identifiers and the cooldown scheduler\<close>

text \<open>
  C5: \<open>generateWeaklogId\<close> scans the raw folder only. On 2026-01-27, with the day's
  first entry moved on to \<open>02_Cooling\<close> (as every creation does at once), it returns
  \<open>2026-01-27_001\<close> again, the identifier of the entry in the cooling folder: the
  identifier is not unique independently of the stage location.
\<close>

theorem generateWeaklogId_reuses_id_of_cooling_entry:
  "generateWeaklogId normalizePath_clean (js ''Weaklog'') utc_zone 1769506200000 sample_vault
     = Inr (js ''2026-01-27_001'') \<and>
   map basename sample_vault = [js ''2026-01-27_001''] \<and>
   map path sample_vault = [js ''Weaklog/02_Cooling/2026-01-27_001.md'']"
  by code_simp










lemma data_entries_empty_data: "data_entries (empty_data t) = []"
  by (simp add: data_entries_def empty_data_def)

lemma data_entries_checked:
  "data_entries (case map_of data (js ''entries'') of Some (JArr es) \<Rightarrow> data | _ \<Rightarrow> empty_data t)
     = data_entries data"
  by (simp add: data_entries_def empty_data_def split: option.splits json.splits)

lemma load_readable:
  assumes "exists_fault f = None" "read_fault f = None"
  shows "data_entries (loadCooldownData f t d) = index_entries d"
proof (cases "index_file d")
  case None
  then show ?thesis
    using assms by (simp add: loadCooldownData_def index_entries_def data_entries_empty_data)
next
  case (Some content)
  show ?thesis
  proof (cases content)
    case (Unparseable x)
    then show ?thesis
      using assms Some by (simp add: loadCooldownData_def index_entries_def data_entries_empty_data)
  next
    case (Parsed v)
    then show ?thesis
      using assms Some
      by (cases v)
         (simp_all add: loadCooldownData_def index_entries_def data_entries_empty_data
            data_entries_checked)
  qed
qed

lemma load_no_faults: "data_entries (loadCooldownData no_faults t d) = index_entries d"
  by (rule load_readable) (simp_all add: no_faults_def)
























end
